theory Spec2Isabelle
  imports Complex_Main
begin

section \<open>Data model\<close>

text \<open>
  A position is the pair (longitude, latitude) in decimal degrees.  Python floats are
  modelled as real numbers; NaN and the infinities are not values of the model.
\<close>

type_synonym position = "real \<times> real"

text \<open>The exceptions the modelled code can raise.\<close>

datatype error = ValueError | ZeroDivisionError | OverflowError | GeometryError

text \<open>
  Rounding moves a computed length or percentage by a few units in the last place,
  which the model leaves out.  At the two places where a rounded value decides what the
  program does next, the model takes the rounded value from a parameter, the machine
  arithmetic:
  \<^item> \<open>avrund_ledd\<close>: the inner term of the haversine formula as line 57 computes it,
    which goes to the two square roots of line 58 (they raise on a negative argument);
  \<^item> \<open>avrund_kvotient\<close>: the quotient \<^verbatim>\<open>total_lengde / segment_lengde\<close> as line 78
    computes it, which is truncated to the number of segments; \<open>None\<close> when it
    overflows to infinity.
  Each gets the arguments of the computation and its exact value; the rounded value
  depends on the arguments, not on the exact value alone.
\<close>

record flyt =
  avrund_ledd :: "real \<times> real \<times> real \<times> real \<Rightarrow> real \<Rightarrow> real"
  avrund_kvotient :: "real \<times> real \<Rightarrow> real \<Rightarrow> real option"

text \<open>
  The geometry library (Shapely) is not part of the repository.  The five operations
  \<^verbatim>\<open>discover_skiloyper.py\<close> calls are taken as a parameter of the model: a
  record of functions over an arbitrary geometry type \<open>'g\<close> and an arbitrary
  polygon type \<open>'p\<close>.
  \<^item> \<open>LineString\<close>: the constructor \<^verbatim>\<open>LineString(coords)\<close>, which may raise;
  \<^item> \<open>coords\<close>: \<^verbatim>\<open>list(linestring.coords)\<close>;
  \<^item> \<open>substring\<close>: \<^verbatim>\<open>substring(linestring, start, end, normalized=True)\<close>,
    which may raise (the caller catches every exception);
  \<^item> \<open>buffer\<close>: \<^verbatim>\<open>segment.buffer(d)\<close>;
  \<^item> \<open>contains\<close>: \<^verbatim>\<open>polygon.contains(Point(lon, lat))\<close>.
\<close>

record ('g, 'p) shapely =
  LineString :: "position list \<Rightarrow> error + 'g"
  coords :: "'g \<Rightarrow> position list"
  substring :: "'g \<Rightarrow> real \<Rightarrow> real \<Rightarrow> error + 'g"
  buffer :: "'g \<Rightarrow> real \<Rightarrow> 'p"
  contains :: "'p \<Rightarrow> position \<Rightarrow> bool"

text \<open>A GeoJSON feature: \<^verbatim>\<open>feature['geometry']['coordinates']\<close> and
  \<^verbatim>\<open>feature['properties']\<close> (an uninterpreted property bag \<open>'a\<close>).\<close>

record 'a feature =
  coordinates :: "position list"
  feature_properties :: 'a

text \<open>The dictionary appended to \<^verbatim>\<open>alle_segmenter\<close> for every segment.\<close>

record ('g, 'a) segment_post =
  geometry :: 'g
  besokt :: bool
  lengde :: real
  properties :: 'a

record stats =
  total_km :: real
  besokt_km :: real
  discovery_prosent :: real

text \<open>The dictionary \<^verbatim>\<open>prosesser_loyper\<close> returns.\<close>

record ('g, 'a) resultat =
  segmenter :: "('g, 'a) segment_post list"
  gpx_punkter :: "position list"
  statistikk :: stats

section \<open>Python arithmetic\<close>

definition radians :: "real \<Rightarrow> real" where
  "radians x = x * (pi / 180)"

text \<open>\<^verbatim>\<open>math.sqrt\<close> raises ValueError (math domain error) on a negative argument.\<close>

definition py_sqrt :: "real \<Rightarrow> error + real" where
  "py_sqrt x = (if x < 0 then Inl ValueError else Inr (sqrt x))"

text \<open>\<^verbatim>\<open>math.atan2(y, x)\<close>: the angle of the point \<open>(x, y)\<close> in \<open>(-pi, pi]\<close>.\<close>

definition atan2 :: "real \<Rightarrow> real \<Rightarrow> real" where
  "atan2 y x =
     (if 0 < x then arctan (y / x)
      else if x < 0 then (if 0 \<le> y then arctan (y / x) + pi else arctan (y / x) - pi)
      else if 0 < y then pi / 2
      else if y < 0 then - (pi / 2)
      else 0)"

text \<open>\<^verbatim>\<open>int(x)\<close> on a finite float truncates towards zero (on an infinite one it
  raises OverflowError, see \<open>segmenter_loype\<close>).\<close>

definition py_int :: "real \<Rightarrow> int" where
  "py_int x = (if 0 \<le> x then \<lfloor>x\<rfloor> else \<lceil>x\<rceil>)"

section \<open>beregn\_linje\_lengde\<close>

text \<open>The nested function \<^verbatim>\<open>haversine(lon1, lat1, lon2, lat2)\<close>, lines 50 to 60.
  The inner term \<open>a\<close> goes to both square roots as the machine computes it, with no
  clamp.\<close>

definition haversine :: "flyt \<Rightarrow> real \<Rightarrow> real \<Rightarrow> real \<Rightarrow> real \<Rightarrow> error + real" where
  "haversine F lon1 lat1 lon2 lat2 =
     (let R = 6371000;
          phi1 = radians lat1;
          phi2 = radians lat2;
          delta_phi = radians (lat2 - lat1);
          delta_lambda = radians (lon2 - lon1);
          a = avrund_ledd F (lon1, lat1, lon2, lat2)
                ((sin (delta_phi / 2))\<^sup>2
                 + cos phi1 * cos phi2 * (sin (delta_lambda / 2))\<^sup>2)
      in case py_sqrt a of
           Inl e \<Rightarrow> Inl e
         | Inr s1 \<Rightarrow>
             (case py_sqrt (1 - a) of
                Inl e \<Rightarrow> Inl e
              | Inr s2 \<Rightarrow> Inr (R * (2 * atan2 s1 s2))))"

text \<open>The loop \<^verbatim>\<open>for i in range(len(coords) - 1)\<close>: the indices still to visit and
  the running \<^verbatim>\<open>total\<close> (here \<open>tot\<close>).  Both \<^verbatim>\<open>coords[i]\<close> and \<^verbatim>\<open>coords[i + 1]\<close> are in range
  for every index of that range.\<close>

fun lengde_loop :: "flyt \<Rightarrow> position list \<Rightarrow> nat list \<Rightarrow> real \<Rightarrow> error + real" where
  "lengde_loop F cs [] tot = Inr tot"
| "lengde_loop F cs (i # rest) tot =
     (case cs ! i of (lon1, lat1) \<Rightarrow>
      case cs ! (i + 1) of (lon2, lat2) \<Rightarrow>
      case haversine F lon1 lat1 lon2 lat2 of
        Inl e \<Rightarrow> Inl e
      | Inr d \<Rightarrow> lengde_loop F cs rest (tot + d))"

text \<open>\<^verbatim>\<open>range(len(coords) - 1)\<close> is empty for an empty list, as is
  \<open>[0..<length cs - 1]\<close> with the truncating subtraction on \<open>nat\<close>.\<close>

definition beregn_linje_lengde :: "flyt \<Rightarrow> ('g, 'p) shapely \<Rightarrow> 'g \<Rightarrow> error + real" where
  "beregn_linje_lengde F L linestring =
     (let cs = coords L linestring in lengde_loop F cs [0..<length cs - 1] 0)"

section \<open>segmenter\_loype\<close>

text \<open>The loop \<^verbatim>\<open>for i in range(antall_segmenter)\<close> with its
  \<^verbatim>\<open>try: ... except: continue\<close>: a slice whose \<^verbatim>\<open>substring\<close> call raises is
  skipped.\<close>

fun segment_loop ::
  "('g, 'p) shapely \<Rightarrow> 'g \<Rightarrow> int \<Rightarrow> nat list \<Rightarrow> 'g list \<Rightarrow> 'g list" where
  "segment_loop L linestring antall [] segs = segs"
| "segment_loop L linestring antall (i # rest) segs =
     (let start_frac = real i / real_of_int antall;
          end_frac = real (i + 1) / real_of_int antall
      in case substring L linestring start_frac end_frac of
           Inl e \<Rightarrow> segment_loop L linestring antall rest segs
         | Inr segment \<Rightarrow> segment_loop L linestring antall rest (segs @ [segment]))"

text \<open>\<^verbatim>\<open>total_lengde / segment_lengde\<close> raises ZeroDivisionError for a zero
  divisor, and \<^verbatim>\<open>int\<close> raises OverflowError when the quotient has overflowed to
  infinity; the length computation is outside the \<^verbatim>\<open>try\<close>, so its exception
  propagates.\<close>

definition segmenter_loype ::
  "flyt \<Rightarrow> ('g, 'p) shapely \<Rightarrow> 'g \<Rightarrow> real \<Rightarrow> error + 'g list" where
  "segmenter_loype F L linestring segment_lengde =
     (case beregn_linje_lengde F L linestring of
        Inl e \<Rightarrow> Inl e
      | Inr total_lengde \<Rightarrow>
          if segment_lengde = 0 then Inl ZeroDivisionError
          else
            (case avrund_kvotient F (total_lengde, segment_lengde)
                    (total_lengde / segment_lengde) of
               None \<Rightarrow> Inl OverflowError
             | Some kvotient \<Rightarrow>
                 let antall_segmenter = max 1 (py_int kvotient)
                 in Inr (segment_loop L linestring antall_segmenter
                           [0..<nat antall_segmenter] [])))"

section \<open>sjekk\_segment\_besokt\<close>

text \<open>The loop over the GPX points returns at the first point the buffer contains.\<close>

fun besokt_loop :: "('g, 'p) shapely \<Rightarrow> 'p \<Rightarrow> position list \<Rightarrow> bool" where
  "besokt_loop L buffered_segment [] = False"
| "besokt_loop L buffered_segment ((lon, lat) # rest) =
     (if contains L buffered_segment (lon, lat) then True
      else besokt_loop L buffered_segment rest)"

definition sjekk_segment_besokt ::
  "('g, 'p) shapely \<Rightarrow> 'g \<Rightarrow> position list \<Rightarrow> real \<Rightarrow> bool" where
  "sjekk_segment_besokt L segment punkter buffer_meter =
     (let buffer_degrees = buffer_meter / 111000;
          buffered_segment = buffer L segment buffer_degrees
      in besokt_loop L buffered_segment punkter)"

section \<open>prosesser\_loyper\<close>

text \<open>
  The three local variables of the accumulation loop (lines 140 to 166):
  \<^verbatim>\<open>alle_segmenter\<close>, \<^verbatim>\<open>total_lengde_meter\<close>, \<^verbatim>\<open>besokt_lengde_meter\<close>.
\<close>

type_synonym ('g, 'a) tilstand = "('g, 'a) segment_post list \<times> real \<times> real"

text \<open>One iteration of the inner loop \<^verbatim>\<open>for segment in segmenter\<close>.\<close>

definition segment_steg ::
  "flyt \<Rightarrow> ('g, 'p) shapely \<Rightarrow> position list \<Rightarrow> 'a \<Rightarrow> ('g, 'a) tilstand \<Rightarrow> 'g
     \<Rightarrow> error + ('g, 'a) tilstand" where
  "segment_steg F L punkter props st segment =
     (case st of (alle_segmenter, total_lengde_meter, besokt_lengde_meter) \<Rightarrow>
      case beregn_linje_lengde F L segment of
        Inl e \<Rightarrow> Inl e
      | Inr segment_lengde \<Rightarrow>
          let total' = total_lengde_meter + segment_lengde;
              er_besokt = sjekk_segment_besokt L segment punkter 50;
              besokt' = (if er_besokt then besokt_lengde_meter + segment_lengde
                         else besokt_lengde_meter)
          in Inr (alle_segmenter @
                    [\<lparr>geometry = segment, besokt = er_besokt,
                      lengde = segment_lengde, properties = props\<rparr>],
                  total', besokt'))"

fun segment_lokke ::
  "flyt \<Rightarrow> ('g, 'p) shapely \<Rightarrow> position list \<Rightarrow> 'a \<Rightarrow> ('g, 'a) tilstand \<Rightarrow> 'g list
     \<Rightarrow> error + ('g, 'a) tilstand" where
  "segment_lokke F L punkter props st [] = Inr st"
| "segment_lokke F L punkter props st (segment # rest) =
     (case segment_steg F L punkter props st segment of
        Inl e \<Rightarrow> Inl e
      | Inr st' \<Rightarrow> segment_lokke F L punkter props st' rest)"

text \<open>One iteration of the outer loop \<^verbatim>\<open>for feature in skiloyper_data['features']\<close>:
  the constructor and the segmentation are outside any \<^verbatim>\<open>try\<close>.\<close>

definition feature_steg ::
  "flyt \<Rightarrow> ('g, 'p) shapely \<Rightarrow> position list \<Rightarrow> ('g, 'a) tilstand \<Rightarrow> 'a feature
     \<Rightarrow> error + ('g, 'a) tilstand" where
  "feature_steg F L punkter st f =
     (case LineString L (coordinates f) of
        Inl e \<Rightarrow> Inl e
      | Inr linestring \<Rightarrow>
          (case segmenter_loype F L linestring 100 of
             Inl e \<Rightarrow> Inl e
           | Inr segs \<Rightarrow> segment_lokke F L punkter (feature_properties f) st segs))"

fun feature_lokke ::
  "flyt \<Rightarrow> ('g, 'p) shapely \<Rightarrow> position list \<Rightarrow> ('g, 'a) tilstand \<Rightarrow> 'a feature list
     \<Rightarrow> error + ('g, 'a) tilstand" where
  "feature_lokke F L punkter st [] = Inr st"
| "feature_lokke F L punkter st (f # rest) =
     (case feature_steg F L punkter st f of
        Inl e \<Rightarrow> Inl e
      | Inr st' \<Rightarrow> feature_lokke F L punkter st' rest)"

text \<open>
  \<^verbatim>\<open>prosesser_loyper\<close> from line 140 on.  Its two arguments are the values the source
  has after reading its files: \<^verbatim>\<open>skiloyper_data['features']\<close> and the list
  \<^verbatim>\<open>les_gpx\<close> returned.  Reading the files and printing are not modelled.
\<close>

definition prosesser_loyper ::
  "flyt \<Rightarrow> ('g, 'p) shapely \<Rightarrow> 'a feature list \<Rightarrow> position list
     \<Rightarrow> error + ('g, 'a) resultat" where
  "prosesser_loyper F L features punkter =
     (case feature_lokke F L punkter ([], 0, 0) features of
        Inl e \<Rightarrow> Inl e
      | Inr (alle_segmenter, total_lengde_meter, besokt_lengde_meter) \<Rightarrow>
          let prosent = (if total_lengde_meter > 0
                         then besokt_lengde_meter / total_lengde_meter * 100 else 0)
          in Inr \<lparr>segmenter = alle_segmenter,
                  gpx_punkter = punkter,
                  statistikk = \<lparr>total_km = total_lengde_meter / 1000,
                                besokt_km = besokt_lengde_meter / 1000,
                                discovery_prosent = prosent\<rparr>\<rparr>)"

section \<open>The haversine formula as the specification words it\<close>

text \<open>
  The inner term of the haversine formula for two positions (longitude, latitude) in
  degrees, and the great-circle distance on a sphere of radius \<open>R\<close>:
  \<open>d = 2 R arcsin (sqrt a)\<close>.  These two definitions follow the formula's textbook
  statement; \<open>haversine\<close> above follows the code, which computes the angle with
  \<open>atan2\<close>.
\<close>

definition spec_hav :: "position \<Rightarrow> position \<Rightarrow> real" where
  "spec_hav p q =
     (sin ((radians (snd q) - radians (snd p)) / 2))\<^sup>2
     + cos (radians (snd p)) * cos (radians (snd q))
       * (sin ((radians (fst q) - radians (fst p)) / 2))\<^sup>2"

definition spec_great_circle :: "real \<Rightarrow> position \<Rightarrow> position \<Rightarrow> real" where
  "spec_great_circle R p q = 2 * R * arcsin (sqrt (spec_hav p q))"

text \<open>The inner term for two positions as the machine computes it, and the distance
  the formula gives at that computed term.\<close>

definition beregnet_ledd :: "flyt \<Rightarrow> position \<Rightarrow> position \<Rightarrow> real" where
  "beregnet_ledd F p q = avrund_ledd F (fst p, snd p, fst q, snd q) (spec_hav p q)"

definition beregnet_avstand :: "flyt \<Rightarrow> position \<Rightarrow> position \<Rightarrow> real" where
  "beregnet_avstand F p q = 2 * 6371000 * arcsin (sqrt (beregnet_ledd F p q))"

section \<open>Notions the statements below use\<close>

text \<open>The \<open>i\<close>-th slice of a line cut into \<open>antall\<close> parts: the result of the library
  call with the arc-length fractions \<open>i / antall\<close> and \<open>(i + 1) / antall\<close>, or
  \<open>None\<close> when that call raises.\<close>

definition slice_of :: "('g, 'p) shapely \<Rightarrow> 'g \<Rightarrow> int \<Rightarrow> nat \<Rightarrow> 'g option" where
  "slice_of L linestring antall i =
     (case substring L linestring (real i / real_of_int antall)
             (real (i + 1) / real_of_int antall) of
        Inl e \<Rightarrow> None
      | Inr segment \<Rightarrow> Some segment)"

text \<open>The invariant of the accumulation loop: the visited length is nonnegative and
  at most the total length.\<close>

definition akkumulert_ok :: "('g, 'a) tilstand \<Rightarrow> bool" where
  "akkumulert_ok st =
     (case st of (alle_segmenter, total_lengde_meter, besokt_lengde_meter) \<Rightarrow>
        0 \<le> besokt_lengde_meter \<and> besokt_lengde_meter \<le> total_lengde_meter)"

text \<open>What the accumulators hold: the sums of the lengths of the segments recorded so
  far, of all of them and of the visited ones; no recorded length is negative.\<close>

definition summer_ok :: "('g, 'a) tilstand \<Rightarrow> bool" where
  "summer_ok st =
     (case st of (alle, t, b) \<Rightarrow>
        t = (\<Sum>s\<leftarrow>alle. lengde s) \<and> b = (\<Sum>s\<leftarrow>filter besokt alle. lengde s)
        \<and> (\<forall>s \<in> set alle. 0 \<le> lengde s))"

text \<open>Two segment records that differ at most in that the second is visited where the
  first is not, and the accumulators of two runs related in that way.\<close>

definition post_mono :: "('g, 'a) segment_post \<Rightarrow> ('g, 'a) segment_post \<Rightarrow> bool" where
  "post_mono s s' =
     (geometry s' = geometry s \<and> lengde s' = lengde s \<and> properties s' = properties s
      \<and> (besokt s \<longrightarrow> besokt s'))"

definition tilstand_mono :: "('g, 'a) tilstand \<Rightarrow> ('g, 'a) tilstand \<Rightarrow> bool" where
  "tilstand_mono st st' =
     (case st of (alle, t, b) \<Rightarrow> case st' of (alle', t', b') \<Rightarrow>
        list_all2 post_mono alle alle' \<and> t' = t \<and> b \<le> b')"

section \<open>osm\_til\_geojson: where the trail geometries come from\<close>

text \<open>
  An element of the Overpass answer: a node with its identifier, longitude and
  latitude; a way with its identifier, its node list when the key
  \<^verbatim>\<open>'nodes'\<close> is present, and its tags \<open>'t\<close>; or anything else.
\<close>

datatype 't element =
    Node int real real
  | Way int "int list option" 't
  | Annet

text \<open>The first loop (lines 168 to 171): the dictionary of the nodes.\<close>

fun bygg_noder :: "'t element list \<Rightarrow> (int \<rightharpoonup> position) \<Rightarrow> (int \<rightharpoonup> position)" where
  "bygg_noder [] nodes = nodes"
| "bygg_noder (Node node_id lon lat # rest) nodes =
     bygg_noder rest (nodes(node_id \<mapsto> (lon, lat)))"
| "bygg_noder (el # rest) nodes = bygg_noder rest nodes"

text \<open>
  The second loop (lines 185 to 249).  Lines 196 to 235 look the municipality up (in
  the tags, in a cache, or through a web service) and build the property map; they
  are the parameter \<open>egenskaper\<close>, a transformer of the state \<open>'w\<close> of the cache and
  of the services, which gets the way's identifier, its tags and the midpoint.  A way
  with fewer than two resolved coordinates is skipped before any of that
  (\<^verbatim>\<open>if len(coordinates) < 2: continue\<close>).
\<close>

fun way_lokke ::
  "('w \<Rightarrow> int \<Rightarrow> 't \<Rightarrow> position \<Rightarrow> 'a \<times> 'w) \<Rightarrow> (int \<rightharpoonup> position) \<Rightarrow> 'w
     \<Rightarrow> 'a feature list \<Rightarrow> 't element list \<Rightarrow> 'a feature list \<times> 'w" where
  "way_lokke egenskaper nodes w features [] = (features, w)"
| "way_lokke egenskaper nodes w features (Way way_id (Some node_ids) tags # rest) =
     (let coordinates' = List.map_filter nodes node_ids
      in if length coordinates' < 2
         then way_lokke egenskaper nodes w features rest
         else
           let mid_idx = length coordinates' div 2;
               (props, w') = egenskaper w way_id tags (coordinates' ! mid_idx)
           in way_lokke egenskaper nodes w'
                (features @ [\<lparr>coordinates = coordinates', feature_properties = props\<rparr>])
                rest)"
| "way_lokke egenskaper nodes w features (el # rest) =
     way_lokke egenskaper nodes w features rest"

definition osm_til_geojson ::
  "('w \<Rightarrow> int \<Rightarrow> 't \<Rightarrow> position \<Rightarrow> 'a \<times> 'w) \<Rightarrow> 'w \<Rightarrow> 't element list
     \<Rightarrow> 'a feature list \<times> 'w" where
  "osm_til_geojson egenskaper w elements =
     way_lokke egenskaper (bygg_noder elements Map.empty) w [] elements"

section \<open>Instances of the arithmetic and of the library for concrete runs\<close>

text \<open>Exact arithmetic: nothing is rounded and no quotient overflows.\<close>

definition eksakt_flyt :: flyt where
  "eksakt_flyt = \<lparr>avrund_ledd = (\<lambda>args x. x), avrund_kvotient = (\<lambda>args x. Some x)\<rparr>"

text \<open>
  The arithmetic of IEEE doubles as far as the runs below need it.  For the antipodal
  positions (0, 12) and (180, -12) the inner term, exactly 1, comes out one unit in the
  last place above 1, as it does in doubles; a quotient of magnitude \<open>2^1024\<close> or more
  overflows.  Everywhere else the exact value stands for the rounded one.
\<close>

definition dobbel_flyt :: flyt where
  "dobbel_flyt =
     \<lparr>avrund_ledd = (\<lambda>args x. if args = (0, 12, 180, - 12) then 1 + 1 / 2 ^ 52 else x),
      avrund_kvotient = (\<lambda>args x. if \<bar>x\<bar> < 2 ^ 1024 then Some x else None)\<rparr>"

text \<open>The line between those two antipodal positions.\<close>

definition antipode_loype :: "position list" where
  "antipode_loype = [(0, 12), (180, - 12)]"

text \<open>
  Lines are coordinate lists and a buffer is a line with a radius.  The constructor
  rejects a single coordinate, as Shapely's does (a LineString has no or at least two
  coordinates).  \<open>substring\<close> cuts a two-point line by linear interpolation and
  raises on any other line, the empty one included; a point is inside a buffer when it
  is closer than the radius to a vertex of the line.
\<close>

definition interpoler :: "position \<Rightarrow> position \<Rightarrow> real \<Rightarrow> position" where
  "interpoler p q t = (fst p + t * (fst q - fst p), snd p + t * (snd q - snd p))"

definition eksempel_shapely :: "(position list, position list \<times> real) shapely" where
  "eksempel_shapely =
     \<lparr>LineString = (\<lambda>cs. if length cs = 1 then Inl ValueError else Inr cs),
      coords = (\<lambda>g. g),
      substring = (\<lambda>g s e. case g of
                      [p, q] \<Rightarrow> Inr [interpoler p q s, interpoler p q e]
                    | _ \<Rightarrow> Inl GeometryError),
      buffer = (\<lambda>g r. (g, r)),
      contains = (\<lambda>b p. \<exists>q \<in> set (fst b).
                    (fst p - fst q)\<^sup>2 + (snd p - snd q)\<^sup>2 < (snd b)\<^sup>2)\<rparr>"

text \<open>A trail of two positions on the meridian of Greenwich, 0.001 degrees of latitude
  (about 111 m) apart.\<close>

definition kort_loype :: "position list" where
  "kort_loype = [(0, 0), (0, 1 / 1000)]"

definition kort_feature :: "unit feature" where
  "kort_feature = \<lparr>coordinates = kort_loype, feature_properties = ()\<rparr>"

text \<open>A feature with a single position, and one with none.\<close>

definition ett_punkt_feature :: "unit feature" where
  "ett_punkt_feature = \<lparr>coordinates = [(10, 61)], feature_properties = ()\<rparr>"

definition tom_feature :: "unit feature" where
  "tom_feature = \<lparr>coordinates = [], feature_properties = ()\<rparr>"

section \<open>The inner term of the haversine formula lies between 0 and 1\<close>

lemma sin_sq_half: "(sin (t / 2))\<^sup>2 = (1 - cos t) / (2::real)"
  using cos_double_sin [of "t / 2"] by simp

lemma sin_sq_le1: "(sin (x::real))\<^sup>2 \<le> 1"
  by (simp add: abs_square_le_1)

lemma cos_ge_m1: "0 \<le> 1 + cos (x::real)" "0 \<le> 1 - cos x"
  using cos_ge_minus_one [of x] cos_le_one [of x] by linarith+

text \<open>The term is a convex combination (with weight \<open>s\<close>, the squared sine of half
  the longitude difference) of two quantities that lie in the unit interval.\<close>

lemma hav_split:
  fixes p q s :: real
  shows "(sin ((q - p) / 2))\<^sup>2 + cos p * cos q * s
       = (1 - s) * ((1 - cos (q - p)) / 2) + s * ((1 + cos (p + q)) / 2)"
  by (simp add: sin_sq_half [of "q - p"] cos_diff cos_add field_simps)

lemma hav_split1:
  fixes p q s :: real
  shows "1 - ((sin ((q - p) / 2))\<^sup>2 + cos p * cos q * s)
       = (1 - s) * ((1 + cos (q - p)) / 2) + s * ((1 - cos (p + q)) / 2)"
  by (simp add: sin_sq_half [of "q - p"] cos_diff cos_add field_simps)

lemma hav_nonneg:
  fixes p q l :: real
  shows "0 \<le> (sin ((q - p) / 2))\<^sup>2 + cos p * cos q * (sin (l / 2))\<^sup>2"
proof -
  have "0 \<le> (1 - (sin (l / 2))\<^sup>2) * ((1 - cos (q - p)) / 2)"
    by (intro mult_nonneg_nonneg) (simp_all add: sin_sq_le1)
  moreover have "0 \<le> (sin (l / 2))\<^sup>2 * ((1 + cos (p + q)) / 2)"
    by (intro mult_nonneg_nonneg) (simp_all add: cos_ge_m1)
  ultimately show ?thesis unfolding hav_split by linarith
qed

lemma hav_le1:
  fixes p q l :: real
  shows "(sin ((q - p) / 2))\<^sup>2 + cos p * cos q * (sin (l / 2))\<^sup>2 \<le> 1"
proof -
  have "0 \<le> (1 - (sin (l / 2))\<^sup>2) * ((1 + cos (q - p)) / 2)"
    by (intro mult_nonneg_nonneg) (simp_all add: sin_sq_le1 cos_ge_m1)
  moreover have "0 \<le> (sin (l / 2))\<^sup>2 * ((1 - cos (p + q)) / 2)"
    by (intro mult_nonneg_nonneg) simp_all
  ultimately show ?thesis using hav_split1 [of q p "(sin (l / 2))\<^sup>2"] by linarith
qed

lemma radians_diff: "radians (x - y) = radians x - radians y"
  by (simp add: radians_def left_diff_distrib)

lemma spec_hav_range: "0 \<le> spec_hav p q" "spec_hav p q \<le> 1"
  unfolding spec_hav_def by (rule hav_nonneg, rule hav_le1)

section \<open>The code's haversine is the great-circle distance\<close>

text \<open>On the unit interval the angle the code takes with \<open>atan2\<close> is the arcsine of
  the formula.\<close>

lemma atan2_sqrt:
  assumes "0 \<le> a" "a \<le> 1"
  shows "atan2 (sqrt a) (sqrt (1 - a)) = arcsin (sqrt a)"
proof (cases "a < 1")
  case True
  then have pos: "0 < sqrt (1 - a)" by simp
  have lt: "sqrt a < 1" using True assms by (simp add: real_sqrt_lt_1_iff)
  have "0 \<le> sqrt a" using assms by simp
  then have "- 1 < sqrt a" by linarith
  then have "arcsin (sqrt a) = arctan (sqrt a / sqrt (1 - (sqrt a)\<^sup>2))"
    using lt by (rule arcsin_arctan)
  also have "(sqrt a)\<^sup>2 = a" using assms by simp
  finally show ?thesis using pos by (simp add: atan2_def)
next
  case False
  then have "a = 1" using assms by simp
  then show ?thesis by (simp add: atan2_def)
qed

lemma haversine_ledd:
  "(sin (radians (lat2 - lat1) / 2))\<^sup>2
     + cos (radians lat1) * cos (radians lat2) * (sin (radians (lon2 - lon1) / 2))\<^sup>2
   = spec_hav (lon1, lat1) (lon2, lat2)"
  by (simp add: spec_hav_def radians_diff)

lemma beregnet_ledd_par:
  "beregnet_ledd F (lon1, lat1) (lon2, lat2)
     = avrund_ledd F (lon1, lat1, lon2, lat2) (spec_hav (lon1, lat1) (lon2, lat2))"
  by (simp add: beregnet_ledd_def)

text \<open>What \<open>haversine\<close> does: it returns the distance of the formula at the computed
  inner term when that term lies between 0 and 1, and raises otherwise.\<close>

lemma haversine_cases:
  "haversine F lon1 lat1 lon2 lat2 =
     (if 0 \<le> beregnet_ledd F (lon1, lat1) (lon2, lat2)
         \<and> beregnet_ledd F (lon1, lat1) (lon2, lat2) \<le> 1
      then Inr (beregnet_avstand F (lon1, lat1) (lon2, lat2))
      else Inl ValueError)"
proof -
  let ?a = "beregnet_ledd F (lon1, lat1) (lon2, lat2)"
  have h: "haversine F lon1 lat1 lon2 lat2 =
      (case py_sqrt ?a of
         Inl e \<Rightarrow> Inl e
       | Inr s1 \<Rightarrow>
           (case py_sqrt (1 - ?a) of
              Inl e \<Rightarrow> Inl e
            | Inr s2 \<Rightarrow> Inr (6371000 * (2 * atan2 s1 s2))))"
    unfolding haversine_def Let_def haversine_ledd beregnet_ledd_par by (rule refl)
  show ?thesis
  proof (cases "0 \<le> ?a \<and> ?a \<le> 1")
    case True
    then have "atan2 (sqrt ?a) (sqrt (1 - ?a)) = arcsin (sqrt ?a)"
      by (intro atan2_sqrt) simp_all
    with True show ?thesis
      unfolding h by (simp add: py_sqrt_def beregnet_avstand_def)
  next
    case False
    then show ?thesis
      unfolding h by (auto simp: py_sqrt_def)
  qed
qed

lemma beregnet_avstand_nonneg:
  "0 \<le> beregnet_ledd F p q \<Longrightarrow> beregnet_ledd F p q \<le> 1 \<Longrightarrow> 0 \<le> beregnet_avstand F p q"
  unfolding beregnet_avstand_def
  by (intro mult_nonneg_nonneg arcsin_nonneg) simp_all

lemma beregnet_avstand_eksakt:
  "beregnet_ledd F p q = spec_hav p q \<Longrightarrow> beregnet_avstand F p q = spec_great_circle 6371000 p q"
  by (simp add: beregnet_avstand_def spec_great_circle_def)

lemma spec_great_circle_nonneg: "0 \<le> R \<Longrightarrow> 0 \<le> spec_great_circle R p q"
  unfolding spec_great_circle_def
  using spec_hav_range [of p q] by (intro mult_nonneg_nonneg arcsin_nonneg) simp_all

section \<open>The length of a line\<close>

text \<open>The loop returns the sum of the distances when every computed inner term lies
  between 0 and 1, and raises at the first pair where one does not.\<close>

lemma lengde_loop_eq:
  "lengde_loop F cs idx tot =
     (if \<forall>i \<in> set idx. 0 \<le> beregnet_ledd F (cs ! i) (cs ! (i + 1))
                          \<and> beregnet_ledd F (cs ! i) (cs ! (i + 1)) \<le> 1
      then Inr (tot + (\<Sum>i\<leftarrow>idx. beregnet_avstand F (cs ! i) (cs ! (i + 1))))
      else Inl ValueError)"
proof (induction idx arbitrary: tot)
  case Nil
  show ?case by simp
next
  case (Cons i rest)
  obtain lon1 lat1 where p: "cs ! i = (lon1, lat1)" by (cases "cs ! i")
  obtain lon2 lat2 where q: "cs ! (i + 1) = (lon2, lat2)" by (cases "cs ! (i + 1)")
  show ?case
  proof (cases "0 \<le> beregnet_ledd F (lon1, lat1) (lon2, lat2)
                \<and> beregnet_ledd F (lon1, lat1) (lon2, lat2) \<le> 1")
    case True
    then show ?thesis
      using p q by (simp add: haversine_cases Cons.IH add.assoc)
  next
    case False
    then show ?thesis
      using p q by (auto simp: haversine_cases)
  qed
qed

lemma beregn_linje_lengde_eq:
  "beregn_linje_lengde F L g =
     (if \<forall>i < length (coords L g) - 1.
           0 \<le> beregnet_ledd F (coords L g ! i) (coords L g ! (i + 1))
           \<and> beregnet_ledd F (coords L g ! i) (coords L g ! (i + 1)) \<le> 1
      then Inr (\<Sum>i<length (coords L g) - 1.
                  beregnet_avstand F (coords L g ! i) (coords L g ! (i + 1)))
      else Inl ValueError)"
  unfolding beregn_linje_lengde_def Let_def lengde_loop_eq
  by (simp add: interv_sum_list_conv_sum_set_nat atLeast0LessThan)

lemma beregn_linje_lengde_nonneg:
  assumes "beregn_linje_lengde F L g = Inr d"
  shows "0 \<le> d"
proof -
  have ok: "\<forall>i < length (coords L g) - 1.
           0 \<le> beregnet_ledd F (coords L g ! i) (coords L g ! (i + 1))
           \<and> beregnet_ledd F (coords L g ! i) (coords L g ! (i + 1)) \<le> 1"
    using assms unfolding beregn_linje_lengde_eq by (simp split: if_splits)
  then have "d = (\<Sum>i<length (coords L g) - 1.
                  beregnet_avstand F (coords L g ! i) (coords L g ! (i + 1)))"
    using assms unfolding beregn_linje_lengde_eq by simp
  moreover have "0 \<le> (\<Sum>i<length (coords L g) - 1.
                  beregnet_avstand F (coords L g ! i) (coords L g ! (i + 1)))"
    using ok by (intro sum_nonneg beregnet_avstand_nonneg) simp_all
  ultimately show ?thesis by simp
qed

lemma beregn_linje_lengde_eksakt:
  assumes "\<forall>i < length (coords L g) - 1.
             beregnet_ledd F (coords L g ! i) (coords L g ! (i + 1))
               = spec_hav (coords L g ! i) (coords L g ! (i + 1))"
  shows "beregn_linje_lengde F L g =
     Inr (\<Sum>i<length (coords L g) - 1.
            spec_great_circle 6371000 (coords L g ! i) (coords L g ! (i + 1)))"
proof -
  have "\<forall>i < length (coords L g) - 1.
           0 \<le> beregnet_ledd F (coords L g ! i) (coords L g ! (i + 1))
           \<and> beregnet_ledd F (coords L g ! i) (coords L g ! (i + 1)) \<le> 1"
    using assms spec_hav_range by simp
  moreover have "(\<Sum>i<length (coords L g) - 1.
                  beregnet_avstand F (coords L g ! i) (coords L g ! (i + 1)))
      = (\<Sum>i<length (coords L g) - 1.
            spec_great_circle 6371000 (coords L g ! i) (coords L g ! (i + 1)))"
    using assms by (intro sum.cong refl beregnet_avstand_eksakt) simp
  ultimately show ?thesis
    unfolding beregn_linje_lengde_eq by simp
qed

lemma beregn_linje_lengde_kort:
  "length (coords L g) < 2 \<Longrightarrow> beregn_linje_lengde F L g = Inr 0"
  by (simp add: beregn_linje_lengde_def)

section \<open>The loops\<close>

lemma segment_loop_eq:
  "segment_loop L g n idx segs = segs @ List.map_filter (slice_of L g n) idx"
proof (induction idx arbitrary: segs)
  case Nil
  show ?case by (simp add: map_filter_simps)
next
  case (Cons i rest)
  show ?case
    by (cases "substring L g (real i / real_of_int n) (real (i + 1) / real_of_int n)")
       (simp_all add: Cons.IH map_filter_simps slice_of_def Let_def)
qed

lemma besokt_loop_iff:
  "besokt_loop L b ps \<longleftrightarrow> (\<exists>p \<in> set ps. contains L b p)"
  by (induction L b ps rule: besokt_loop.induct) auto

lemma sjekk_segment_besokt_iff:
  "sjekk_segment_besokt L seg ps b \<longleftrightarrow> (\<exists>p \<in> set ps. contains L (buffer L seg (b / 111000)) p)"
  by (simp add: sjekk_segment_besokt_def besokt_loop_iff)

text \<open>One iteration, spelled out.\<close>

lemma segment_steg_eq:
  "beregn_linje_lengde F L seg = Inr d \<Longrightarrow>
   segment_steg F L tr props (alle, t, b) seg =
     Inr (alle @ [\<lparr>geometry = seg, besokt = sjekk_segment_besokt L seg tr 50,
                     lengde = d, properties = props\<rparr>],
            t + d, if sjekk_segment_besokt L seg tr 50 then b + d else b)"
  unfolding segment_steg_def Let_def by simp

lemma segment_steg_feil:
  "beregn_linje_lengde F L seg = Inl e \<Longrightarrow> segment_steg F L tr props st seg = Inl e"
  unfolding segment_steg_def Let_def by (cases st) simp

lemma segment_steg_Inr:
  assumes "segment_steg F L tr props (alle, t, b) seg = Inr st'"
  obtains d where "beregn_linje_lengde F L seg = Inr d" "0 \<le> d"
    "st' = (alle @ [\<lparr>geometry = seg, besokt = sjekk_segment_besokt L seg tr 50,
                     lengde = d, properties = props\<rparr>],
            t + d, if sjekk_segment_besokt L seg tr 50 then b + d else b)"
proof (cases "beregn_linje_lengde F L seg")
  case (Inl e)
  then have "segment_steg F L tr props (alle, t, b) seg = Inl e"
    by (rule segment_steg_feil)
  with assms show thesis by simp
next
  case (Inr d)
  have "0 \<le> d" using Inr by (rule beregn_linje_lengde_nonneg)
  moreover have "st' = (alle @ [\<lparr>geometry = seg, besokt = sjekk_segment_besokt L seg tr 50,
                     lengde = d, properties = props\<rparr>],
            t + d, if sjekk_segment_besokt L seg tr 50 then b + d else b)"
    using assms unfolding segment_steg_eq [OF Inr] by (simp only: sum.inject)
  ultimately show thesis using Inr that by blast
qed

lemma segment_lokke_inv:
  assumes step: "\<And>st seg st'. P st \<Longrightarrow> segment_steg F L tr props st seg = Inr st' \<Longrightarrow> P st'"
    and "P st" and "segment_lokke F L tr props st segs = Inr st'"
  shows "P st'"
  using assms(2,3)
proof (induction segs arbitrary: st)
  case Nil
  then show ?case by simp
next
  case (Cons seg rest)
  from Cons.prems(2) obtain st1 where
    1: "segment_steg F L tr props st seg = Inr st1"
    and 2: "segment_lokke F L tr props st1 rest = Inr st'"
    by (cases "segment_steg F L tr props st seg") simp_all
  have "P st1" using step Cons.prems(1) 1 by blast
  then show ?case using Cons.IH 2 by blast
qed

lemma feature_steg_Inr:
  assumes "feature_steg F L tr st f = Inr st'"
  obtains g segs where "LineString L (coordinates f) = Inr g"
    "segmenter_loype F L g 100 = Inr segs"
    "segment_lokke F L tr (feature_properties f) st segs = Inr st'"
proof (cases "LineString L (coordinates f)")
  case (Inl e)
  with assms show thesis by (simp add: feature_steg_def)
next
  case g: (Inr g)
  show thesis
  proof (cases "segmenter_loype F L g 100")
    case (Inl e)
    with assms g show thesis by (simp add: feature_steg_def)
  next
    case (Inr segs)
    with assms g that show thesis by (simp add: feature_steg_def)
  qed
qed

lemma feature_steg_inv:
  assumes step: "\<And>props st seg st'. P st \<Longrightarrow> segment_steg F L tr props st seg = Inr st' \<Longrightarrow> P st'"
    and "P st" and "feature_steg F L tr st f = Inr st'"
  shows "P st'"
proof -
  from assms(3) obtain g segs where
    "segment_lokke F L tr (feature_properties f) st segs = Inr st'"
    by (rule feature_steg_Inr)
  then show ?thesis
    using segment_lokke_inv [of P F L tr "feature_properties f" st segs st'] step assms(2) by blast
qed

lemma feature_lokke_inv:
  assumes step: "\<And>props st seg st'. P st \<Longrightarrow> segment_steg F L tr props st seg = Inr st' \<Longrightarrow> P st'"
    and "P st" and "feature_lokke F L tr st fs = Inr st'"
  shows "P st'"
  using assms(2,3)
proof (induction fs arbitrary: st)
  case Nil
  then show ?case by simp
next
  case (Cons f rest)
  from Cons.prems(2) obtain st1 where
    1: "feature_steg F L tr st f = Inr st1" and 2: "feature_lokke F L tr st1 rest = Inr st'"
    by (cases "feature_steg F L tr st f") simp_all
  have "P st1" using feature_steg_inv [of P F L tr st f st1] step Cons.prems(1) 1 by blast
  then show ?case using Cons.IH 2 by blast
qed

section \<open>Concrete runs\<close>

text \<open>Along a meridian the great-circle distance is the radius times the angle.\<close>

lemma spec_great_circle_meridian:
  assumes "0 \<le> d" "d \<le> 180"
  shows "spec_great_circle R (lon, lat) (lon, lat + d) = R * radians d"
proof -
  have "radians (lat + d) - radians lat = radians d"
    using radians_diff [of "lat + d" lat] by simp
  then have h: "spec_hav (lon, lat) (lon, lat + d) = (sin (radians d / 2))\<^sup>2"
    by (simp add: spec_hav_def)
  have r: "0 \<le> radians d / 2" "radians d / 2 \<le> pi / 2"
    using assms by (simp_all add: radians_def)
  then have s: "0 \<le> sin (radians d / 2)"
    using sin_ge_zero [of "radians d / 2"] pi_gt_zero by linarith
  have "arcsin (sqrt ((sin (radians d / 2))\<^sup>2)) = radians d / 2"
    using s r by (simp add: arcsin_sin)
  then show ?thesis by (simp add: spec_great_circle_def h)
qed

lemma beregnet_ledd_eksakt_flyt: "beregnet_ledd eksakt_flyt p q = spec_hav p q"
  by (simp add: beregnet_ledd_def eksakt_flyt_def)

lemma beregnet_ledd_dobbel_flyt:
  "beregnet_ledd dobbel_flyt p q =
     (if (fst p, snd p, fst q, snd q) = (0, 12, 180, - 12) then 1 + 1 / 2 ^ 52
      else spec_hav p q)"
  by (simp add: beregnet_ledd_def dobbel_flyt_def)

lemma dobbel_kvotient:
  "\<bar>x\<bar> < 2 ^ 1024 \<Longrightarrow> avrund_kvotient dobbel_flyt args x = Some x"
  "2 ^ 1024 \<le> \<bar>x\<bar> \<Longrightarrow> avrund_kvotient dobbel_flyt args x = None"
  by (simp_all add: dobbel_flyt_def)

lemma kort_lengde:
  "beregn_linje_lengde dobbel_flyt eksempel_shapely kort_loype = Inr (6371 * pi / 180)"
proof -
  have c: "coords eksempel_shapely kort_loype = [(0, 0), (0, 1 / 1000)]"
    by (simp add: eksempel_shapely_def kort_loype_def)
  have "spec_great_circle 6371000 (0, 0) (0, 0 + 1 / 1000) = 6371000 * radians (1 / 1000)"
    by (rule spec_great_circle_meridian) simp_all
  then have g: "spec_great_circle 6371000 (0, 0) (0, 1 / 1000) = 6371 * pi / 180"
    by (simp add: radians_def)
  have "beregn_linje_lengde dobbel_flyt eksempel_shapely kort_loype =
     Inr (\<Sum>i<length (coords eksempel_shapely kort_loype) - 1.
            spec_great_circle 6371000 (coords eksempel_shapely kort_loype ! i)
              (coords eksempel_shapely kort_loype ! (i + 1)))"
    by (rule beregn_linje_lengde_eksakt) (simp add: c beregnet_ledd_dobbel_flyt)
  then show ?thesis by (simp add: c g)
qed

lemma kort_kvotient:
  "avrund_kvotient dobbel_flyt (6371 * pi / 180, 100) (6371 * pi / 18000)
     = Some (6371 * pi / 18000)"
proof -
  have "\<bar>6371 * pi / 18000\<bar> < 2" using pi_less_4 by simp
  moreover have "(2::real) \<le> 2 ^ 1024" by simp
  ultimately have "\<bar>6371 * pi / 18000\<bar> < 2 ^ 1024" by linarith
  then show ?thesis by (rule dobbel_kvotient(1))
qed

lemma kort_antall: "max 1 (py_int (6371 * pi / 18000)) = 1"
proof -
  have "6371 * pi / 18000 < 2" using pi_less_4 by simp
  moreover have "0 \<le> 6371 * pi / 18000" by simp
  ultimately have "py_int (6371 * pi / 18000) \<le> 1"
    unfolding py_int_def by (simp add: floor_le_iff)
  then show ?thesis by simp
qed

lemma kort_segmenter:
  "segmenter_loype dobbel_flyt eksempel_shapely kort_loype 100 = Inr [kort_loype]"
  unfolding segmenter_loype_def kort_lengde
  by (simp add: kort_kvotient kort_antall)
     (simp add: eksempel_shapely_def kort_loype_def interpoler_def)

lemma kort_besokt:
  "sjekk_segment_besokt eksempel_shapely kort_loype [(0, 0)] 50"
  by (simp add: sjekk_segment_besokt_def eksempel_shapely_def kort_loype_def)

lemma kort_ikke_besokt:
  "\<not> sjekk_segment_besokt eksempel_shapely kort_loype [(1, 1)] 50"
  by (simp add: sjekk_segment_besokt_def eksempel_shapely_def kort_loype_def power2_eq_square)

lemma kort_LineString: "LineString eksempel_shapely kort_loype = Inr kort_loype"
  by (simp add: eksempel_shapely_def kort_loype_def)

lemma kort_run:
  "prosesser_loyper dobbel_flyt eksempel_shapely [kort_feature] tr =
     Inr \<lparr>segmenter =
            [\<lparr>geometry = kort_loype,
              besokt = sjekk_segment_besokt eksempel_shapely kort_loype tr 50,
              lengde = 6371 * pi / 180, properties = ()\<rparr>],
          gpx_punkter = tr,
          statistikk =
            \<lparr>total_km = 6371 * pi / 180 / 1000,
             besokt_km = (if sjekk_segment_besokt eksempel_shapely kort_loype tr 50
                          then 6371 * pi / 180 / 1000 else 0),
             discovery_prosent = (if sjekk_segment_besokt eksempel_shapely kort_loype tr 50
                                  then 100 else 0)\<rparr>\<rparr>"
proof -
  have steg: "feature_steg dobbel_flyt eksempel_shapely tr ([], 0, 0) kort_feature =
      Inr ([\<lparr>geometry = kort_loype,
              besokt = sjekk_segment_besokt eksempel_shapely kort_loype tr 50,
              lengde = 6371 * pi / 180, properties = ()\<rparr>],
           6371 * pi / 180,
           if sjekk_segment_besokt eksempel_shapely kort_loype tr 50
           then 6371 * pi / 180 else 0)"
    by (simp add: feature_steg_def kort_feature_def kort_LineString kort_segmenter
          segment_steg_eq [OF kort_lengde])
  show ?thesis
    unfolding prosesser_loyper_def by (simp add: steg)
qed

text \<open>The antipodal line: its inner term is exactly 1, and one unit in the last place
  above 1 as the doubles compute it.\<close>

lemma antipode_spec_hav: "spec_hav (0, 12) (180, - 12) = 1"
proof -
  have r: "radians 180 = pi" "radians (- 12) = - radians 12" "radians 0 = 0"
    by (simp_all add: radians_def)
  have "(radians (- 12) - radians 12) / 2 = - radians 12" by (simp add: r)
  then have "spec_hav (0, 12) (180, - 12) = (sin (radians 12))\<^sup>2 + (cos (radians 12))\<^sup>2"
    by (simp add: spec_hav_def r power2_eq_square)
  then show ?thesis by simp
qed

lemma antipode_dobbel: "haversine dobbel_flyt 0 12 180 (- 12) = Inl ValueError"
  by (simp add: haversine_cases beregnet_ledd_dobbel_flyt)

lemma antipode_eksakt: "haversine eksakt_flyt 0 12 180 (- 12) = Inr (6371000 * pi)"
  by (simp add: haversine_cases beregnet_ledd_eksakt_flyt antipode_spec_hav
        beregnet_avstand_def)

section \<open>Claims about the visit test\<close>

lemma ingen_besokt_steg:
  assumes "\<forall>s \<in> set (fst st). \<not> besokt s"
    and "segment_steg F L [] props st seg = Inr st'"
  shows "\<forall>s \<in> set (fst st'). \<not> besokt s"
proof -
  obtain alle t b where st: "st = (alle, t, b)" by (cases st)
  from assms(2) obtain d where
    "st' = (alle @ [\<lparr>geometry = seg, besokt = sjekk_segment_besokt L seg [] 50,
                     lengde = d, properties = props\<rparr>],
            t + d, if sjekk_segment_besokt L seg [] 50 then b + d else b)"
    unfolding st by (rule segment_steg_Inr)
  with assms(1) st show ?thesis
    by (auto simp: sjekk_segment_besokt_def)
qed

lemma prosesser_loyper_Inr:
  assumes "prosesser_loyper F L fs tr = Inr r"
  obtains alle t b where "feature_lokke F L tr ([], 0, 0) fs = Inr (alle, t, b)"
    "r = \<lparr>segmenter = alle, gpx_punkter = tr,
          statistikk = \<lparr>total_km = t / 1000, besokt_km = b / 1000,
                        discovery_prosent = (if t > 0 then b / t * 100 else 0)\<rparr>\<rparr>"
proof (cases "feature_lokke F L tr ([], 0, 0) fs")
  case (Inl e)
  with assms show thesis by (simp add: prosesser_loyper_def)
next
  case (Inr st)
  obtain alle t b where st: "st = (alle, t, b)" by (cases st)
  from assms Inr st have "r = \<lparr>segmenter = alle, gpx_punkter = tr,
          statistikk = \<lparr>total_km = t / 1000, besokt_km = b / 1000,
                        discovery_prosent = (if t > 0 then b / t * 100 else 0)\<rparr>\<rparr>"
    by (simp add: prosesser_loyper_def)
  with Inr st that show thesis by simp
qed

text \<open>
  Claim C1.  \<open>sjekk_segment_besokt\<close> returns true exactly when some position of the
  track is contained in the buffer the library builds around the segment with the
  radius \<open>buffer_meter / 111000\<close> degrees (the library's \<open>contains\<close> is the test for
  lying strictly inside); it returns false for the empty track, and a run of
  \<open>prosesser_loyper\<close> with the empty track marks every segment as not visited.
\<close>

theorem C1_visited_iff_some_point_inside:
  "(sjekk_segment_besokt L segment track buffer_meter
      \<longleftrightarrow> (\<exists>p \<in> set track. contains L (buffer L segment (buffer_meter / 111000)) p))
   \<and> \<not> sjekk_segment_besokt L segment [] buffer_meter
   \<and> (\<forall>r. prosesser_loyper F L trails [] = Inr r \<longrightarrow> (\<forall>s \<in> set (segmenter r). \<not> besokt s))"
proof (intro conjI allI impI)
  show "sjekk_segment_besokt L segment track buffer_meter
      \<longleftrightarrow> (\<exists>p \<in> set track. contains L (buffer L segment (buffer_meter / 111000)) p)"
    by (rule sjekk_segment_besokt_iff)
next
  show "\<not> sjekk_segment_besokt L segment [] buffer_meter"
    by (simp add: sjekk_segment_besokt_iff)
next
  fix r
  assume "prosesser_loyper F L trails [] = Inr r"
  then obtain alle t b where run: "feature_lokke F L [] ([], 0, 0) trails = Inr (alle, t, b)"
    and r: "segmenter r = alle"
    by (rule prosesser_loyper_Inr) simp
  have "\<forall>s \<in> set (fst (alle, t, b)). \<not> besokt s"
    by (rule feature_lokke_inv [where P = "\<lambda>st. \<forall>s \<in> set (fst st). \<not> besokt s", OF _ _ run])
       (erule ingen_besokt_steg, assumption, simp)
  then show "\<forall>s \<in> set (segmenter r). \<not> besokt s" by (simp add: r)
qed

text \<open>The theorem on the short trail: a track through its first position visits it,
  a track far away does not, and the empty track leaves its one segment unvisited.\<close>

theorem C1_visited_witness:
  "sjekk_segment_besokt eksempel_shapely kort_loype [(1, 1), (0, 0)] 50
   \<and> contains eksempel_shapely (buffer eksempel_shapely kort_loype (50 / 111000)) (0, 0)
   \<and> \<not> sjekk_segment_besokt eksempel_shapely kort_loype [(1, 1)] 50
   \<and> (\<exists>r. prosesser_loyper dobbel_flyt eksempel_shapely [kort_feature] [] = Inr r
          \<and> map besokt (segmenter r) = [False])"
proof -
  have c: "contains eksempel_shapely (buffer eksempel_shapely kort_loype (50 / 111000)) (0, 0)"
    by (simp add: eksempel_shapely_def kort_loype_def)
  have n: "\<not> contains eksempel_shapely (buffer eksempel_shapely kort_loype (50 / 111000)) (1, 1)"
    by (simp add: eksempel_shapely_def kort_loype_def power2_eq_square)
  have run: "\<exists>r. prosesser_loyper dobbel_flyt eksempel_shapely [kort_feature] [] = Inr r
          \<and> map besokt (segmenter r) = [False]"
    using C1_visited_iff_some_point_inside
      [of eksempel_shapely kort_loype "[]" 50 dobbel_flyt "[kort_feature]"]
    by (simp add: kort_run)
  have a: "sjekk_segment_besokt eksempel_shapely kort_loype [(1, 1), (0, 0)] 50"
    using C1_visited_iff_some_point_inside
      [of eksempel_shapely kort_loype "[(1, 1), (0, 0)]" 50 dobbel_flyt "[]", THEN conjunct1] c
    by simp
  have b: "\<not> sjekk_segment_besokt eksempel_shapely kort_loype [(1, 1)] 50"
    using C1_visited_iff_some_point_inside
      [of eksempel_shapely kort_loype "[(1, 1)]" 50 dobbel_flyt "[]", THEN conjunct1] n
    by simp
  from a c b run show ?thesis by (intro conjI)
qed

section \<open>Claims about the accumulated lengths\<close>

lemma summer_ok_steg:
  assumes "summer_ok st" and "segment_steg F L tr props st seg = Inr st'"
  shows "summer_ok st'"
proof -
  obtain alle t b where st: "st = (alle, t, b)" by (cases st)
  from assms(2) obtain d where "0 \<le> d"
    "st' = (alle @ [\<lparr>geometry = seg, besokt = sjekk_segment_besokt L seg tr 50,
                     lengde = d, properties = props\<rparr>],
            t + d, if sjekk_segment_besokt L seg tr 50 then b + d else b)"
    unfolding st by (rule segment_steg_Inr)
  with assms(1) st show ?thesis
    by (auto simp: summer_ok_def)
qed

lemma akkumulert_ok_steg:
  assumes "akkumulert_ok st" and "segment_steg F L tr props st seg = Inr st'"
  shows "akkumulert_ok st'"
proof -
  obtain alle t b where st: "st = (alle, t, b)" by (cases st)
  from assms(2) obtain d where "0 \<le> d"
    "st' = (alle @ [\<lparr>geometry = seg, besokt = sjekk_segment_besokt L seg tr 50,
                     lengde = d, properties = props\<rparr>],
            t + d, if sjekk_segment_besokt L seg tr 50 then b + d else b)"
    unfolding st by (rule segment_steg_Inr)
  with assms(1) st show ?thesis
    by (auto simp: akkumulert_ok_def)
qed

text \<open>
  Claim C3.  When \<open>prosesser_loyper\<close> returns, the accumulated total length is the
  sum of the lengths of the returned segments and the accumulated visited length is
  the sum over the visited ones (both are returned in kilometres); the discovery figure it returns is the ratio visited / total when the total is
  positive and 0 when the total is 0 (no division by a zero total).  The code reports
  that ratio as a percentage (the key \<^verbatim>\<open>discovery_prosent\<close>): the returned number
  is 100 times the ratio, and so the ratio is the returned number over 100.
\<close>

theorem C3_discovery_ratio:
  assumes "prosesser_loyper F L trails track = Inr r"
  shows "\<exists>total_length visited_length.
           total_length = (\<Sum>s\<leftarrow>segmenter r. lengde s)
         \<and> visited_length = (\<Sum>s\<leftarrow>filter besokt (segmenter r). lengde s)
         \<and> 0 \<le> total_length
         \<and> total_km (statistikk r) = total_length / 1000
         \<and> besokt_km (statistikk r) = visited_length / 1000
         \<and> discovery_prosent (statistikk r)
             = 100 * (if total_length > 0 then visited_length / total_length else 0)
         \<and> discovery_prosent (statistikk r) / 100
             = (if total_length > 0 then visited_length / total_length else 0)
         \<and> (total_length = 0 \<longrightarrow> discovery_prosent (statistikk r) = 0)"
proof -
  from assms obtain alle t b where run: "feature_lokke F L track ([], 0, 0) trails = Inr (alle, t, b)"
    and r: "r = \<lparr>segmenter = alle, gpx_punkter = track,
          statistikk = \<lparr>total_km = t / 1000, besokt_km = b / 1000,
                        discovery_prosent = (if t > 0 then b / t * 100 else 0)\<rparr>\<rparr>"
    by (rule prosesser_loyper_Inr)
  have "summer_ok (alle, t, b)"
    by (rule feature_lokke_inv [where P = summer_ok, OF _ _ run])
       (erule summer_ok_steg, assumption, simp add: summer_ok_def)
  then have t: "t = (\<Sum>s\<leftarrow>alle. lengde s)" and b: "b = (\<Sum>s\<leftarrow>filter besokt alle. lengde s)"
    and nn: "\<forall>s \<in> set alle. 0 \<le> lengde s"
    by (simp_all add: summer_ok_def)
  have "0 \<le> t" unfolding t using nn by (intro sum_list_nonneg) auto
  then show ?thesis
    using t b by (simp add: r)
qed

text \<open>The theorem on the short trail with a track through its first position: the
  total is positive, all of it is visited, and the reported figure is 100.\<close>

theorem C3_discovery_ratio_witness:
  "prosesser_loyper dobbel_flyt eksempel_shapely [kort_feature] [(0, 0)]
     = Inr \<lparr>segmenter = [\<lparr>geometry = kort_loype, besokt = True,
                           lengde = 6371 * pi / 180, properties = ()\<rparr>],
            gpx_punkter = [(0, 0)],
            statistikk = \<lparr>total_km = 6371 * pi / 180 / 1000,
                          besokt_km = 6371 * pi / 180 / 1000,
                          discovery_prosent = 100\<rparr>\<rparr>
   \<and> (0::real) < 6371 * pi / 180
   \<and> (100::real) = 100 * ((6371 * pi / 180) / (6371 * pi / 180))"
proof -
  have run: "prosesser_loyper dobbel_flyt eksempel_shapely [kort_feature] [(0, 0)]
     = Inr \<lparr>segmenter = [\<lparr>geometry = kort_loype, besokt = True,
                           lengde = 6371 * pi / 180, properties = ()\<rparr>],
            gpx_punkter = [(0, 0)],
            statistikk = \<lparr>total_km = 6371 * pi / 180 / 1000,
                          besokt_km = 6371 * pi / 180 / 1000,
                          discovery_prosent = 100\<rparr>\<rparr>"
    by (simp add: kort_run kort_besokt)
  show ?thesis
    using C3_discovery_ratio [OF run] run by simp
qed

text \<open>
  Claim C10.  The visited length is nonnegative and at most the total length before
  the first iteration and after every iteration of the accumulation loop (of the inner
  loop over the segments and so of the outer loop over the trails); hence the reported
  percentage lies between 0 and 100.
\<close>

theorem C10_visited_at_most_total:
  "akkumulert_ok ([], 0, 0)
   \<and> (\<forall>props st seg st'. akkumulert_ok st \<and> segment_steg F L track props st seg = Inr st'
         \<longrightarrow> akkumulert_ok st')
   \<and> (\<forall>st f st'. akkumulert_ok st \<and> feature_steg F L track st f = Inr st'
         \<longrightarrow> akkumulert_ok st')
   \<and> (\<forall>r. prosesser_loyper F L trails track = Inr r \<longrightarrow>
         0 \<le> besokt_km (statistikk r) \<and> besokt_km (statistikk r) \<le> total_km (statistikk r)
         \<and> 0 \<le> discovery_prosent (statistikk r) \<and> discovery_prosent (statistikk r) \<le> 100)"
proof -
  have res: "0 \<le> besokt_km (statistikk r) \<and> besokt_km (statistikk r) \<le> total_km (statistikk r)
         \<and> 0 \<le> discovery_prosent (statistikk r) \<and> discovery_prosent (statistikk r) \<le> 100"
    if "prosesser_loyper F L trails track = Inr r" for r
  proof -
    from that obtain alle t b where run: "feature_lokke F L track ([], 0, 0) trails = Inr (alle, t, b)"
      and r: "r = \<lparr>segmenter = alle, gpx_punkter = track,
          statistikk = \<lparr>total_km = t / 1000, besokt_km = b / 1000,
                        discovery_prosent = (if t > 0 then b / t * 100 else 0)\<rparr>\<rparr>"
      by (rule prosesser_loyper_Inr)
    have "akkumulert_ok (alle, t, b)"
      by (rule feature_lokke_inv [where P = akkumulert_ok, OF _ _ run])
         (erule akkumulert_ok_steg, assumption, simp add: akkumulert_ok_def)
    then have b: "0 \<le> b" "b \<le> t" by (simp_all add: akkumulert_ok_def)
    then have "t > 0 \<Longrightarrow> b / t * 100 \<le> 100" by (simp add: field_simps)
    moreover have "t > 0 \<Longrightarrow> 0 \<le> b / t * 100" using b by simp
    ultimately show ?thesis using b by (simp add: r)
  qed
  show ?thesis
  proof (intro conjI allI impI)
    show "akkumulert_ok ([], 0, 0)" by (simp add: akkumulert_ok_def)
  next
    fix props st seg st'
    assume a: "akkumulert_ok st \<and> segment_steg F L track props st seg = Inr st'"
    show "akkumulert_ok st'"
      by (rule akkumulert_ok_steg [OF conjunct1 [OF a] conjunct2 [OF a]])
  next
    fix st f st'
    assume a: "akkumulert_ok st \<and> feature_steg F L track st f = Inr st'"
    show "akkumulert_ok st'"
      by (rule feature_steg_inv [where P = akkumulert_ok, OF _ conjunct1 [OF a] conjunct2 [OF a]])
         (erule akkumulert_ok_steg, assumption)
  next
    fix r assume "prosesser_loyper F L trails track = Inr r"
    from res [OF this] show "0 \<le> besokt_km (statistikk r)" by simp
  next
    fix r assume "prosesser_loyper F L trails track = Inr r"
    from res [OF this] show "besokt_km (statistikk r) \<le> total_km (statistikk r)" by simp
  next
    fix r assume "prosesser_loyper F L trails track = Inr r"
    from res [OF this] show "0 \<le> discovery_prosent (statistikk r)" by simp
  next
    fix r assume "prosesser_loyper F L trails track = Inr r"
    from res [OF this] show "discovery_prosent (statistikk r) \<le> 100" by simp
  qed
qed

text \<open>The theorem on the short trail: the first iteration from the initial state.\<close>

theorem C10_visited_at_most_total_witness:
  "akkumulert_ok ([] :: (position list, unit) segment_post list, 0, 0)
   \<and> segment_steg dobbel_flyt eksempel_shapely [(0, 0)] () ([], 0, 0) kort_loype
       = Inr ([\<lparr>geometry = kort_loype, besokt = True,
                 lengde = 6371 * pi / 180, properties = ()\<rparr>],
              6371 * pi / 180, 6371 * pi / 180)
   \<and> akkumulert_ok ([\<lparr>geometry = kort_loype, besokt = True,
                        lengde = 6371 * pi / 180, properties = ()\<rparr>],
                     6371 * pi / 180, 6371 * pi / 180)
   \<and> (\<exists>r. prosesser_loyper dobbel_flyt eksempel_shapely [kort_feature] [(0, 0)] = Inr r
          \<and> discovery_prosent (statistikk r) = 100)"
proof -
  have steg: "segment_steg dobbel_flyt eksempel_shapely [(0, 0)] () ([], 0, 0) kort_loype
       = Inr ([\<lparr>geometry = kort_loype, besokt = True,
                 lengde = 6371 * pi / 180, properties = ()\<rparr>],
              6371 * pi / 180, 6371 * pi / 180)"
    by (simp add: segment_steg_eq [OF kort_lengde] kort_besokt)
  note inst = C10_visited_at_most_total [of dobbel_flyt eksempel_shapely "[(0, 0)]" "[kort_feature]"]
  have init: "akkumulert_ok ([] :: (position list, unit) segment_post list, 0, 0)"
    by (simp add: akkumulert_ok_def)
  have "akkumulert_ok ([\<lparr>geometry = kort_loype, besokt = True,
                        lengde = 6371 * pi / 180, properties = ()\<rparr>],
                     6371 * pi / 180, 6371 * pi / 180)"
    using inst [THEN conjunct2, THEN conjunct1, rule_format, OF conjI [OF init steg]] .
  moreover have "\<exists>r. prosesser_loyper dobbel_flyt eksempel_shapely [kort_feature] [(0, 0)] = Inr r
          \<and> discovery_prosent (statistikk r) = 100"
    by (simp add: kort_run kort_besokt)
  ultimately show ?thesis using init steg by simp
qed

section \<open>Claims about longer tracks\<close>

lemma sjekk_mono:
  "set tr \<subseteq> set tr' \<Longrightarrow> sjekk_segment_besokt L seg tr m \<Longrightarrow> sjekk_segment_besokt L seg tr' m"
  unfolding sjekk_segment_besokt_iff by blast

lemma tilstand_mono_steg:
  assumes sub: "set tr \<subseteq> set tr'" and rel: "tilstand_mono st1 st2"
  shows "rel_sum (=) tilstand_mono
           (segment_steg F L tr props st1 seg) (segment_steg F L tr' props st2 seg)"
proof (cases "beregn_linje_lengde F L seg")
  case (Inl e)
  then show ?thesis by (simp add: segment_steg_feil)
next
  case (Inr d)
  obtain alle t b where st1: "st1 = (alle, t, b)" by (cases st1)
  obtain alle' t' b' where st2: "st2 = (alle', t', b')" by (cases st2)
  have d: "0 \<le> d" using Inr by (rule beregn_linje_lengde_nonneg)
  have m: "sjekk_segment_besokt L seg tr 50 \<Longrightarrow> sjekk_segment_besokt L seg tr' 50"
    using sub by (rule sjekk_mono)
  from rel have r: "list_all2 post_mono alle alle'" "t' = t" "b \<le> b'"
    by (simp_all add: tilstand_mono_def st1 st2)
  show ?thesis
    unfolding st1 st2 segment_steg_eq [OF Inr]
    using r d m by (auto simp: tilstand_mono_def post_mono_def list_all2_appendI)
qed

lemma tilstand_mono_segment_lokke:
  assumes sub: "set tr \<subseteq> set tr'"
  shows "tilstand_mono st1 st2 \<Longrightarrow>
         rel_sum (=) tilstand_mono
           (segment_lokke F L tr props st1 segs) (segment_lokke F L tr' props st2 segs)"
proof (induction segs arbitrary: st1 st2)
  case Nil
  then show ?case by simp
next
  case (Cons seg rest)
  have step: "rel_sum (=) tilstand_mono
           (segment_steg F L tr props st1 seg) (segment_steg F L tr' props st2 seg)"
    using sub Cons.prems by (rule tilstand_mono_steg)
  show ?case
  proof (cases "segment_steg F L tr props st1 seg")
    case (Inl e)
    with step have "segment_steg F L tr' props st2 seg = Inl e"
      by (cases "segment_steg F L tr' props st2 seg") simp_all
    with Inl show ?thesis by simp
  next
    case (Inr s1)
    with step obtain s2 where 2: "segment_steg F L tr' props st2 seg = Inr s2"
      and "tilstand_mono s1 s2"
      by (cases "segment_steg F L tr' props st2 seg") simp_all
    then show ?thesis using Cons.IH Inr by simp
  qed
qed

lemma tilstand_mono_feature_steg:
  assumes sub: "set tr \<subseteq> set tr'" and rel: "tilstand_mono st1 st2"
  shows "rel_sum (=) tilstand_mono (feature_steg F L tr st1 f) (feature_steg F L tr' st2 f)"
proof (cases "LineString L (coordinates f)")
  case (Inl e)
  then show ?thesis by (simp add: feature_steg_def)
next
  case g: (Inr g)
  show ?thesis
  proof (cases "segmenter_loype F L g 100")
    case (Inl e)
    with g show ?thesis by (simp add: feature_steg_def)
  next
    case (Inr segs)
    with g show ?thesis
      using tilstand_mono_segment_lokke [OF sub rel, of F L "feature_properties f" segs]
      by (simp add: feature_steg_def)
  qed
qed

lemma tilstand_mono_feature_lokke:
  assumes sub: "set tr \<subseteq> set tr'"
  shows "tilstand_mono st1 st2 \<Longrightarrow>
         rel_sum (=) tilstand_mono (feature_lokke F L tr st1 fs) (feature_lokke F L tr' st2 fs)"
proof (induction fs arbitrary: st1 st2)
  case Nil
  then show ?case by simp
next
  case (Cons f rest)
  have step: "rel_sum (=) tilstand_mono (feature_steg F L tr st1 f) (feature_steg F L tr' st2 f)"
    using sub Cons.prems by (rule tilstand_mono_feature_steg)
  show ?case
  proof (cases "feature_steg F L tr st1 f")
    case (Inl e)
    with step have "feature_steg F L tr' st2 f = Inl e"
      by (cases "feature_steg F L tr' st2 f") simp_all
    with Inl show ?thesis by simp
  next
    case (Inr s1)
    with step obtain s2 where 2: "feature_steg F L tr' st2 f = Inr s2"
      and "tilstand_mono s1 s2"
      by (cases "feature_steg F L tr' st2 f") simp_all
    then show ?thesis using Cons.IH Inr by simp
  qed
qed

text \<open>
  Claim C8.  Appending positions to the track never decreases the discovery figure
  \<open>prosesser_loyper\<close> returns: the run with the longer track fails exactly as the
  run with the shorter one does, or both return, with the same segments in the same
  order, every segment visited under the shorter track still visited, the same total
  length, and no smaller visited length and percentage.
\<close>

theorem C8_more_positions_never_decrease:
  "(\<forall>e. prosesser_loyper F L trails track = Inl e \<longrightarrow>
         prosesser_loyper F L trails (track @ extra) = Inl e)
   \<and> (\<forall>r. prosesser_loyper F L trails track = Inr r \<longrightarrow>
         (\<exists>r'. prosesser_loyper F L trails (track @ extra) = Inr r'
            \<and> discovery_prosent (statistikk r) \<le> discovery_prosent (statistikk r')
            \<and> total_km (statistikk r') = total_km (statistikk r)
            \<and> besokt_km (statistikk r) \<le> besokt_km (statistikk r')
            \<and> list_all2 post_mono (segmenter r) (segmenter r')))"
proof -
  have sub: "set track \<subseteq> set (track @ extra)" by simp
  have sim: "rel_sum (=) tilstand_mono
       (feature_lokke F L track ([], 0, 0) trails) (feature_lokke F L (track @ extra) ([], 0, 0) trails)"
    by (rule tilstand_mono_feature_lokke [OF sub]) (simp add: tilstand_mono_def)
  show ?thesis
  proof (cases "feature_lokke F L track ([], 0, 0) trails")
    case (Inl e)
    with sim have "feature_lokke F L (track @ extra) ([], 0, 0) trails = Inl e"
      by (cases "feature_lokke F L (track @ extra) ([], 0, 0) trails") simp_all
    with Inl show ?thesis by (simp add: prosesser_loyper_def)
  next
    case (Inr st1)
    with sim obtain st2 where 2: "feature_lokke F L (track @ extra) ([], 0, 0) trails = Inr st2"
      and rel: "tilstand_mono st1 st2"
      by (cases "feature_lokke F L (track @ extra) ([], 0, 0) trails") simp_all
    obtain alle t b where st1: "st1 = (alle, t, b)" by (cases st1)
    obtain alle' t' b' where st2: "st2 = (alle', t', b')" by (cases st2)
    from rel have r: "list_all2 post_mono alle alle'" "t' = t" "b \<le> b'"
      by (simp_all add: tilstand_mono_def st1 st2)
    have "b / t * 100 \<le> b' / t * 100" if "0 < t"
      using that r(3) by (simp add: divide_right_mono)
    with r Inr 2 show ?thesis
      by (simp add: prosesser_loyper_def st1 st2)
  qed
qed

text \<open>The theorem on the short trail: a track far away gives 0, and the same track
  with the trail's first position appended gives 100.\<close>

theorem C8_more_positions_witness:
  "(\<exists>r r'. prosesser_loyper dobbel_flyt eksempel_shapely [kort_feature] [(1, 1)] = Inr r
         \<and> prosesser_loyper dobbel_flyt eksempel_shapely [kort_feature] ([(1, 1)] @ [(0, 0)]) = Inr r'
         \<and> discovery_prosent (statistikk r) = 0
         \<and> discovery_prosent (statistikk r') = 100
         \<and> discovery_prosent (statistikk r) \<le> discovery_prosent (statistikk r')
         \<and> total_km (statistikk r') = total_km (statistikk r))"
proof -
  have b: "sjekk_segment_besokt eksempel_shapely kort_loype [(1, 1), (0, 0)] 50"
    by (simp add: sjekk_segment_besokt_def eksempel_shapely_def kort_loype_def)
  let ?r = "\<lparr>segmenter = [\<lparr>geometry = kort_loype, besokt = False,
                           lengde = 6371 * pi / 180, properties = ()\<rparr>],
            gpx_punkter = [(1, 1)],
            statistikk = \<lparr>total_km = 6371 * pi / 180 / 1000,
                          besokt_km = 0, discovery_prosent = 0\<rparr>\<rparr>"
  have run: "prosesser_loyper dobbel_flyt eksempel_shapely [kort_feature] [(1, 1)] = Inr ?r"
    by (simp add: kort_run kort_ikke_besokt)
  from C8_more_positions_never_decrease
         [of dobbel_flyt eksempel_shapely "[kort_feature]" "[(1, 1)]" "[(0, 0)]",
          THEN conjunct2, rule_format, OF run]
  obtain r' where r': "prosesser_loyper dobbel_flyt eksempel_shapely [kort_feature] ([(1, 1)] @ [(0, 0)]) = Inr r'"
    and le: "discovery_prosent (statistikk ?r) \<le> discovery_prosent (statistikk r')"
    and tot: "total_km (statistikk r') = total_km (statistikk ?r)"
    by (elim exE conjE)
  have 100: "discovery_prosent (statistikk r') = 100"
    using r' b by (auto simp: kort_run)
  show ?thesis
    by (intro exI [of _ ?r] exI [of _ r'] conjI run r' 100 le tot) simp
qed

section \<open>The domain of the square roots\<close>

text \<open>
  Claim C4 is about rounding.  The code passes the inner term to both square roots as
  computed, with no clamp.  For the antipodal positions (0, 12) and (180, -12) the
  exact inner term is 1, the edge of the domain of the second square root, and in
  exact arithmetic the distance is half the circumference; for an inner term one unit
  in the last place above 1, the value \<open>1 + 2^-52\<close> the doubles give there, the
  second square root raises and so does \<open>haversine\<close>.
\<close>

theorem C4_antipodal_inner_term_on_the_boundary:
  "spec_hav (0, 12) (180, - 12) = 1
   \<and> haversine eksakt_flyt 0 12 180 (- 12) = Inr (6371000 * pi)
   \<and> py_sqrt (1 - (1 + 1 / 2 ^ 52)) = Inl ValueError
   \<and> haversine dobbel_flyt 0 12 180 (- 12) = Inl ValueError"
proof -
  have "py_sqrt (1 - (1 + 1 / 2 ^ 52)) = Inl ValueError"
    by (simp add: py_sqrt_def)
  then show ?thesis
    using antipode_spec_hav antipode_eksakt antipode_dobbel by simp
qed

section \<open>Claims about the length of a line\<close>

text \<open>
  Claim C7 says that \<open>beregn_linje_lengde\<close> returns, for every line, the sum of the
  haversine distances of its consecutive positions on a sphere of radius 6 371 000 m,
  0 for fewer than two positions, and never a negative number.  That is what it returns
  whenever it returns: the sum of the distances of the formula at the computed inner
  terms, which is the sum of the great-circle distances when those terms are exact, is
  0 for fewer than two positions and is never negative.  It does not return for every
  line: on the antipodal line, where the claim promises half the circumference, the
  unclamped inner term of the doubles makes it raise.
\<close>

theorem C7_length_is_haversine_sum_unless_it_raises:
  "(length (coords L g) < 2 \<longrightarrow> beregn_linje_lengde F L g = Inr 0)
   \<and> (\<forall>d. beregn_linje_lengde F L g = Inr d \<longrightarrow>
          0 \<le> d
          \<and> d = (\<Sum>i<length (coords L g) - 1.
                   beregnet_avstand F (coords L g ! i) (coords L g ! (i + 1))))
   \<and> ((\<forall>i < length (coords L g) - 1.
          beregnet_ledd F (coords L g ! i) (coords L g ! (i + 1))
            = spec_hav (coords L g ! i) (coords L g ! (i + 1)))
        \<longrightarrow> beregn_linje_lengde F L g =
              Inr (\<Sum>i<length (coords L g) - 1.
                     spec_great_circle 6371000 (coords L g ! i) (coords L g ! (i + 1))))
   \<and> spec_great_circle 6371000 (0, 12) (180, - 12) = 6371000 * pi
   \<and> beregn_linje_lengde dobbel_flyt eksempel_shapely antipode_loype = Inl ValueError"
proof (intro conjI allI impI)
  assume "length (coords L g) < 2"
  then show "beregn_linje_lengde F L g = Inr 0" by (rule beregn_linje_lengde_kort)
next
  fix d assume "beregn_linje_lengde F L g = Inr d"
  then show "0 \<le> d" by (rule beregn_linje_lengde_nonneg)
next
  fix d assume "beregn_linje_lengde F L g = Inr d"
  then show "d = (\<Sum>i<length (coords L g) - 1.
                   beregnet_avstand F (coords L g ! i) (coords L g ! (i + 1)))"
    unfolding beregn_linje_lengde_eq by (simp split: if_splits)
next
  assume "\<forall>i < length (coords L g) - 1.
          beregnet_ledd F (coords L g ! i) (coords L g ! (i + 1))
            = spec_hav (coords L g ! i) (coords L g ! (i + 1))"
  then show "beregn_linje_lengde F L g =
              Inr (\<Sum>i<length (coords L g) - 1.
                     spec_great_circle 6371000 (coords L g ! i) (coords L g ! (i + 1)))"
    by (rule beregn_linje_lengde_eksakt)
next
  show "spec_great_circle 6371000 (0, 12) (180, - 12) = 6371000 * pi"
    by (simp add: spec_great_circle_def antipode_spec_hav)
next
  have "coords eksempel_shapely antipode_loype = [(0, 12), (180, - 12)]"
    by (simp add: eksempel_shapely_def antipode_loype_def)
  then show "beregn_linje_lengde dobbel_flyt eksempel_shapely antipode_loype = Inl ValueError"
    unfolding beregn_linje_lengde_eq by (simp add: beregnet_ledd_dobbel_flyt)
qed

text \<open>The theorem at a line of one position and at the two-position trail, whose
  inner term the arithmetic leaves exact.\<close>

theorem C7_length_witness:
  "length (coords eksempel_shapely [(10, 61)]) < 2
   \<and> beregn_linje_lengde dobbel_flyt eksempel_shapely [(10, 61)] = Inr 0
   \<and> beregn_linje_lengde dobbel_flyt eksempel_shapely kort_loype = Inr (6371 * pi / 180)
   \<and> (0::real) \<le> 6371 * pi / 180
   \<and> beregnet_ledd dobbel_flyt (0, 0) (0, 1 / 1000) = spec_hav (0, 0) (0, 1 / 1000)
   \<and> beregn_linje_lengde dobbel_flyt eksempel_shapely kort_loype
       = Inr (spec_great_circle 6371000 (0, 0) (0, 1 / 1000))"
proof -
  have 1: "length (coords eksempel_shapely [(10, 61)]) < 2"
    by (simp add: eksempel_shapely_def)
  have c: "coords eksempel_shapely kort_loype = [(0, 0), (0, 1 / 1000)]"
    by (simp add: eksempel_shapely_def kort_loype_def)
  have e: "beregnet_ledd dobbel_flyt (0, 0) (0, 1 / 1000) = spec_hav (0, 0) (0, 1 / 1000)"
    by (simp add: beregnet_ledd_dobbel_flyt)
  note inst1 = C7_length_is_haversine_sum_unless_it_raises
                 [of eksempel_shapely "[(10, 61)]" dobbel_flyt]
  note inst2 = C7_length_is_haversine_sum_unless_it_raises
                 [of eksempel_shapely kort_loype dobbel_flyt]
  have 2: "beregn_linje_lengde dobbel_flyt eksempel_shapely [(10, 61)] = Inr 0"
    using inst1 [THEN conjunct1] 1 by simp
  have 3: "(0::real) \<le> 6371 * pi / 180"
    by (rule inst2 [THEN conjunct2, THEN conjunct1, rule_format, OF kort_lengde, THEN conjunct1])
  have 4: "beregn_linje_lengde dobbel_flyt eksempel_shapely kort_loype
       = Inr (spec_great_circle 6371000 (0, 0) (0, 1 / 1000))"
    using inst2 [THEN conjunct2, THEN conjunct2, THEN conjunct1] e by (simp add: c)
  from 1 2 kort_lengde 3 e 4 show ?thesis by (intro conjI)
qed

section \<open>Claims about the segmentation\<close>

lemma segmenter_loype_eq:
  assumes "segment_lengde \<noteq> 0" and "beregn_linje_lengde F L P = Inr total_lengde"
    and "avrund_kvotient F (total_lengde, segment_lengde) (total_lengde / segment_lengde)
           = Some kvotient"
  shows "segmenter_loype F L P segment_lengde =
           Inr (List.map_filter (slice_of L P (max 1 (py_int kvotient)))
                  [0..<nat (max 1 (py_int kvotient))])"
  using assms by (simp add: segmenter_loype_def Let_def segment_loop_eq)

lemma segmenter_loype_overflow:
  assumes "segment_lengde \<noteq> 0" and "beregn_linje_lengde F L P = Inr total_lengde"
    and "avrund_kvotient F (total_lengde, segment_lengde) (total_lengde / segment_lengde)
           = None"
  shows "segmenter_loype F L P segment_lengde = Inl OverflowError"
  using assms by (simp add: segmenter_loype_def)

lemma segmenter_loype_feil:
  "beregn_linje_lengde F L P = Inl e \<Longrightarrow> segmenter_loype F L P segment_lengde = Inl e"
  by (simp add: segmenter_loype_def)

lemma pi_ge_3: "3 \<le> pi"
proof -
  have "sin (pi / 6) \<le> pi / 6" by (rule sin_x_le_x) simp
  then show ?thesis by (simp add: sin_30)
qed

lemma kort_overflow:
  "avrund_kvotient dobbel_flyt (6371 * pi / 180, 1 / 10 ^ 320)
     (6371 * pi / 180 / (1 / 10 ^ 320)) = None"
proof -
  have p: "(2::real) ^ 1024 \<le> 10 ^ 320" by simp
  have "(1::real) \<le> 6371 * pi / 180" using pi_ge_3 by simp
  then have "(1::real) * 10 ^ 320 \<le> 6371 * pi / 180 * 10 ^ 320"
    by (intro mult_right_mono) simp_all
  then have "(10::real) ^ 320 \<le> 6371 * pi / 180 / (1 / 10 ^ 320)" by simp
  with p have "(2::real) ^ 1024 \<le> \<bar>6371 * pi / 180 / (1 / 10 ^ 320)\<bar>" by linarith
  then show ?thesis by (rule dobbel_kvotient(2))
qed

lemma kort_to_deler:
  "segmenter_loype dobbel_flyt eksempel_shapely kort_loype 50
     = Inr [[(0, 0), (0, 1 / 2000)], [(0, 1 / 2000), (0, 1 / 1000)]]"
proof -
  have lt: "\<bar>6371 * pi / 180 / 50\<bar> < 3" using pi_less_4 by simp
  have "(3::real) \<le> 2 ^ 1024" by simp
  with lt have "\<bar>6371 * pi / 180 / 50\<bar> < 2 ^ 1024" by linarith
  then have k: "avrund_kvotient dobbel_flyt (6371 * pi / 180, 50) (6371 * pi / 180 / 50)
                  = Some (6371 * pi / 180 / 50)"
    by (rule dobbel_kvotient(1))
  have "2 \<le> 6371 * pi / 180 / 50" using pi_ge_3 by simp
  moreover have "6371 * pi / 180 / 50 < 3" using pi_less_4 by simp
  ultimately have "\<lfloor>6371 * pi / 180 / 50\<rfloor> = 2" by (intro floor_unique) simp_all
  then have n: "max 1 (py_int (6371 * pi / 180 / 50)) = 2" by (simp add: py_int_def)
  have u: "[0..<nat 2] = [0, 1]" by (simp add: upt_rec)
  have s0: "slice_of eksempel_shapely kort_loype 2 0 = Some [(0, 0), (0, 1 / 2000)]"
    by (simp add: slice_of_def eksempel_shapely_def kort_loype_def interpoler_def)
  have s1: "slice_of eksempel_shapely kort_loype 2 (Suc 0)
              = Some [(0, 1 / 2000), (0, 1 / 1000)]"
    by (simp add: slice_of_def eksempel_shapely_def kort_loype_def interpoler_def)
  have "segmenter_loype dobbel_flyt eksempel_shapely kort_loype 50 =
      Inr (List.map_filter
             (slice_of eksempel_shapely kort_loype (max 1 (py_int (6371 * pi / 180 / 50))))
             [0..<nat (max 1 (py_int (6371 * pi / 180 / 50)))])"
    by (rule segmenter_loype_eq [OF _ kort_lengde k]) simp
  then have "segmenter_loype dobbel_flyt eksempel_shapely kort_loype 50 =
      Inr (List.map_filter (slice_of eksempel_shapely kort_loype 2) [0, 1])"
    unfolding n u .
  then show ?thesis
    by (simp add: map_filter_simps s0 s1)
qed

text \<open>
  Claim C2 says that \<open>segmenter_loype\<close> computes the count and produces the slices
  for every line and every positive target length.  For a target so small that the
  quotient overflows, there is no count: the length of the short trail is computed,
  the quotient by \<open>10^-320\<close> is infinite, and \<^verbatim>\<open>int\<close> raises OverflowError.
\<close>

theorem C2_no_count_when_the_quotient_overflows_counterexample:
  "(0::real) < 1 / 10 ^ 320
   \<and> beregn_linje_lengde dobbel_flyt eksempel_shapely kort_loype = Inr (6371 * pi / 180)
   \<and> segmenter_loype dobbel_flyt eksempel_shapely kort_loype (1 / 10 ^ 320)
       = Inl OverflowError"
proof -
  have "segmenter_loype dobbel_flyt eksempel_shapely kort_loype (1 / 10 ^ 320)
       = Inl OverflowError"
    by (rule segmenter_loype_overflow [OF _ kort_lengde kort_overflow]) simp
  then show ?thesis using kort_lengde by simp
qed

text \<open>
  Claim C2, amended.  For every line whose length \<open>total\<close> is computed and every
  positive target length for which the quotient \<open>total / target\<close> is finite,
  \<open>segmenter_loype\<close> sets the count to the maximum of 1 and the quotient, as the
  machine computes it, rounded down, and returns, in the order of
  \<open>i = 0, ..., count - 1\<close>, the slices the library gives for the fractions
  \<open>i / count\<close> to \<open>(i + 1) / count\<close>: every slice whose call does not raise, and so
  all \<open>count\<close> of them when none raises.  When the quotient overflows it raises
  OverflowError.
\<close>

theorem C2_segment_slices:
  assumes "0 < segment_lengde"
    and "beregn_linje_lengde F L P = Inr total_lengde"
  shows "(avrund_kvotient F (total_lengde, segment_lengde) (total_lengde / segment_lengde)
            = None
          \<longrightarrow> segmenter_loype F L P segment_lengde = Inl OverflowError)
       \<and> (\<forall>kvotient antall.
            avrund_kvotient F (total_lengde, segment_lengde) (total_lengde / segment_lengde)
              = Some kvotient
            \<and> antall = max 1 (py_int kvotient)
          \<longrightarrow> (0 \<le> kvotient \<longrightarrow> antall = max 1 \<lfloor>kvotient\<rfloor>)
              \<and> segmenter_loype F L P segment_lengde =
                  Inr (List.map_filter (slice_of L P antall) [0..<nat antall])
              \<and> ((\<forall>i < nat antall. slice_of L P antall i \<noteq> None) \<longrightarrow>
                   segmenter_loype F L P segment_lengde =
                     Inr (map (\<lambda>i. the (slice_of L P antall i)) [0..<nat antall])))"
proof (intro conjI allI impI)
  assume "avrund_kvotient F (total_lengde, segment_lengde) (total_lengde / segment_lengde)
            = None"
  then show "segmenter_loype F L P segment_lengde = Inl OverflowError"
    using assms by (intro segmenter_loype_overflow) simp_all
next
  fix kvotient :: real and antall :: int
  assume "avrund_kvotient F (total_lengde, segment_lengde) (total_lengde / segment_lengde)
              = Some kvotient
            \<and> antall = max 1 (py_int kvotient)"
    and "0 \<le> kvotient"
  then show "antall = max 1 \<lfloor>kvotient\<rfloor>" by (simp add: py_int_def)
next
  fix kvotient :: real and antall :: int
  assume a: "avrund_kvotient F (total_lengde, segment_lengde) (total_lengde / segment_lengde)
              = Some kvotient
            \<and> antall = max 1 (py_int kvotient)"
  have "segment_lengde \<noteq> 0" using assms(1) by simp
  from segmenter_loype_eq [OF this assms(2) conjunct1 [OF a]] conjunct2 [OF a]
  show "segmenter_loype F L P segment_lengde =
                  Inr (List.map_filter (slice_of L P antall) [0..<nat antall])"
    by simp
next
  fix kvotient :: real and antall :: int
  assume a: "avrund_kvotient F (total_lengde, segment_lengde) (total_lengde / segment_lengde)
              = Some kvotient
            \<and> antall = max 1 (py_int kvotient)"
    and alle: "\<forall>i < nat antall. slice_of L P antall i \<noteq> None"
  have "segment_lengde \<noteq> 0" using assms(1) by simp
  from segmenter_loype_eq [OF this assms(2) conjunct1 [OF a]] conjunct2 [OF a]
  have eq: "segmenter_loype F L P segment_lengde =
                  Inr (List.map_filter (slice_of L P antall) [0..<nat antall])"
    by simp
  have "filter (\<lambda>i. slice_of L P antall i \<noteq> None) [0..<nat antall] = [0..<nat antall]"
    using alle by (intro filter_True) simp
  then show "segmenter_loype F L P segment_lengde =
                     Inr (map (\<lambda>i. the (slice_of L P antall i)) [0..<nat antall])"
    unfolding eq by (simp add: List.map_filter_def comp_def)
qed

text \<open>The theorem on the short trail with the target 50 m: the quotient is about 2.2,
  the count is 2, and the two slices are the two halves of the trail.\<close>

theorem C2_segment_slices_witness:
  "(0::real) < 50
   \<and> beregn_linje_lengde dobbel_flyt eksempel_shapely kort_loype = Inr (6371 * pi / 180)
   \<and> avrund_kvotient dobbel_flyt (6371 * pi / 180, 50) (6371 * pi / 180 / 50)
       = Some (6371 * pi / 180 / 50)
   \<and> (0::real) \<le> 6371 * pi / 180 / 50
   \<and> (2::int) = max 1 (py_int (6371 * pi / 180 / 50))
   \<and> (2::int) = max 1 \<lfloor>6371 * pi / 180 / 50\<rfloor>
   \<and> segmenter_loype dobbel_flyt eksempel_shapely kort_loype 50
       = Inr [[(0, 0), (0, 1 / 2000)], [(0, 1 / 2000), (0, 1 / 1000)]]
   \<and> segmenter_loype dobbel_flyt eksempel_shapely kort_loype 50
       = Inr (List.map_filter (slice_of eksempel_shapely kort_loype 2) [0..<nat 2])"
proof -
  have lt: "\<bar>6371 * pi / 180 / 50\<bar> < 3" using pi_less_4 by simp
  have "(3::real) \<le> 2 ^ 1024" by simp
  with lt have "\<bar>6371 * pi / 180 / 50\<bar> < 2 ^ 1024" by linarith
  then have k: "avrund_kvotient dobbel_flyt (6371 * pi / 180, 50) (6371 * pi / 180 / 50)
                  = Some (6371 * pi / 180 / 50)"
    by (rule dobbel_kvotient(1))
  have ge: "2 \<le> 6371 * pi / 180 / 50" using pi_ge_3 by simp
  moreover have "6371 * pi / 180 / 50 < 3" using pi_less_4 by simp
  ultimately have "\<lfloor>6371 * pi / 180 / 50\<rfloor> = 2" by (intro floor_unique) simp_all
  then have n: "(2::int) = max 1 (py_int (6371 * pi / 180 / 50))" by (simp add: py_int_def)
  have nn: "(0::real) \<le> 6371 * pi / 180 / 50" using ge by linarith
  have pos: "(0::real) < 50" by simp
  note inst = C2_segment_slices [OF pos kort_lengde, THEN conjunct2, rule_format,
                OF conjI [OF k n]]
  have f: "(2::int) = max 1 \<lfloor>6371 * pi / 180 / 50\<rfloor>"
    by (rule inst [THEN conjunct1, rule_format, OF nn])
  have e: "segmenter_loype dobbel_flyt eksempel_shapely kort_loype 50
       = Inr (List.map_filter (slice_of eksempel_shapely kort_loype 2) [0..<nat 2])"
    by (rule inst [THEN conjunct2, THEN conjunct1])
  from pos kort_lengde k nn n f kort_to_deler e show ?thesis by (intro conjI)
qed

text \<open>
  Claim C6 says that a line of at least two positions yields at least one segment for
  every positive target length.  For a target so small that the quotient overflows, no
  segment is returned: \<^verbatim>\<open>int\<close> raises OverflowError before any slice is cut, although
  the library would return the whole short trail as its slice.
\<close>

theorem C6_no_segment_when_the_quotient_overflows_counterexample:
  "2 \<le> length (coords eksempel_shapely kort_loype)
   \<and> (0::real) < 1 / 10 ^ 320
   \<and> substring eksempel_shapely kort_loype 0 1 = Inr kort_loype
   \<and> segmenter_loype dobbel_flyt eksempel_shapely kort_loype (1 / 10 ^ 320)
       = Inl OverflowError"
proof -
  have "segmenter_loype dobbel_flyt eksempel_shapely kort_loype (1 / 10 ^ 320)
       = Inl OverflowError"
    by (rule segmenter_loype_overflow [OF _ kort_lengde kort_overflow]) simp
  then show ?thesis
    by (simp add: eksempel_shapely_def kort_loype_def interpoler_def)
qed

text \<open>
  Claim C6, amended.  For every line whose length is computed and every positive
  target length for which the quotient of the two is finite, \<open>segmenter_loype\<close>
  attempts at least one slice, however large the target is, and returns one segment
  for every slice that does not fail: at least one segment exactly when some slice
  succeeds, and exactly as many as the count, so at least one, when the library
  returns every slice of the line (as Shapely does for a line of at least two
  positions).
\<close>

theorem C6_at_least_one_segment:
  assumes "0 < segment_lengde"
    and "beregn_linje_lengde F L P = Inr total_lengde"
    and "avrund_kvotient F (total_lengde, segment_lengde) (total_lengde / segment_lengde)
           = Some kvotient"
  shows "\<exists>antall segs.
           antall = max 1 (py_int kvotient)
         \<and> 1 \<le> antall
         \<and> segmenter_loype F L P segment_lengde = Inr segs
         \<and> length segs = length (filter (\<lambda>i. slice_of L P antall i \<noteq> None) [0..<nat antall])
         \<and> (segs \<noteq> [] \<longleftrightarrow> (\<exists>i < nat antall. slice_of L P antall i \<noteq> None))
         \<and> ((\<forall>s e. 0 \<le> s \<and> s < e \<and> e \<le> 1 \<longrightarrow> (\<exists>g. substring L P s e = Inr g))
              \<longrightarrow> length segs = nat antall \<and> segs \<noteq> [])"
proof -
  let ?n = "max 1 (py_int kvotient)"
  let ?segs = "List.map_filter (slice_of L P ?n) [0..<nat ?n]"
  have "segment_lengde \<noteq> 0" using assms(1) by simp
  then have eq: "segmenter_loype F L P segment_lengde = Inr ?segs"
    using assms(2,3) by (rule segmenter_loype_eq)
  have len: "length ?segs = length (filter (\<lambda>i. slice_of L P ?n i \<noteq> None) [0..<nat ?n])"
    by (simp add: List.map_filter_def)
  have ne: "?segs \<noteq> [] \<longleftrightarrow> (\<exists>i < nat ?n. slice_of L P ?n i \<noteq> None)"
    by (auto simp: List.map_filter_def filter_empty_conv)
  have one: "1 \<le> ?n" by simp
  have alle: "length ?segs = nat ?n \<and> ?segs \<noteq> []"
    if lib: "\<forall>s e. 0 \<le> s \<and> s < e \<and> e \<le> 1 \<longrightarrow> (\<exists>g. substring L P s e = Inr g)"
  proof -
    have ok: "slice_of L P ?n i \<noteq> None" if i: "i < nat ?n" for i
    proof -
      have n: "0 < real_of_int ?n" using one by linarith
      have le: "real (i + 1) \<le> real_of_int ?n" using i one by linarith
      have "0 \<le> real i / real_of_int ?n" using n by simp
      moreover have "real i / real_of_int ?n < real (i + 1) / real_of_int ?n"
        using n by (simp add: divide_strict_right_mono)
      moreover have "real (i + 1) / real_of_int ?n \<le> 1" using n le by simp
      ultimately obtain g where
        "substring L P (real i / real_of_int ?n) (real (i + 1) / real_of_int ?n) = Inr g"
        using lib by blast
      then show ?thesis by (simp add: slice_of_def)
    qed
    then have "filter (\<lambda>i. slice_of L P ?n i \<noteq> None) [0..<nat ?n] = [0..<nat ?n]"
      by (intro filter_True) simp
    then have l: "length ?segs = nat ?n" unfolding len by simp
    moreover have "0 < nat ?n" using one by linarith
    ultimately have "0 < length ?segs" by simp
    then have "?segs \<noteq> []" by (rule length_greater_0_conv [THEN iffD1])
    with l show ?thesis by simp
  qed
  have sist: "(\<forall>s e. 0 \<le> s \<and> s < e \<and> e \<le> 1 \<longrightarrow> (\<exists>g. substring L P s e = Inr g))
              \<longrightarrow> length ?segs = nat ?n \<and> ?segs \<noteq> []"
    by (rule impI) (rule alle)
  show ?thesis
    by (intro exI [of _ ?n] exI [of _ ?segs] conjI refl one eq len ne sist)
qed

text \<open>The theorem on the short trail with the target 50 m: the library returns every
  slice of the trail, and the two slices of the count are returned.\<close>

theorem C6_at_least_one_segment_witness:
  "(0::real) < 50
   \<and> beregn_linje_lengde dobbel_flyt eksempel_shapely kort_loype = Inr (6371 * pi / 180)
   \<and> avrund_kvotient dobbel_flyt (6371 * pi / 180, 50) (6371 * pi / 180 / 50)
       = Some (6371 * pi / 180 / 50)
   \<and> (\<exists>s. slice_of eksempel_shapely kort_loype 2 0 = Some s)
   \<and> (\<exists>g. substring eksempel_shapely kort_loype 0 (1 / 2) = Inr g)
   \<and> (\<exists>segs. segmenter_loype dobbel_flyt eksempel_shapely kort_loype 50 = Inr segs
           \<and> segs \<noteq> [])"
proof -
  have lt: "\<bar>6371 * pi / 180 / 50\<bar> < 3" using pi_less_4 by simp
  have "(3::real) \<le> 2 ^ 1024" by simp
  with lt have "\<bar>6371 * pi / 180 / 50\<bar> < 2 ^ 1024" by linarith
  then have k: "avrund_kvotient dobbel_flyt (6371 * pi / 180, 50) (6371 * pi / 180 / 50)
                  = Some (6371 * pi / 180 / 50)"
    by (rule dobbel_kvotient(1))
  have pos: "(0::real) < 50" by simp
  have lib: "\<exists>g. substring eksempel_shapely kort_loype s e = Inr g" for s e
    by (simp add: eksempel_shapely_def kort_loype_def)
  have s0: "\<exists>s. slice_of eksempel_shapely kort_loype 2 0 = Some s"
    by (simp add: slice_of_def eksempel_shapely_def kort_loype_def)
  from C6_at_least_one_segment [OF pos kort_lengde k]
  obtain antall segs where
    seg: "segmenter_loype dobbel_flyt eksempel_shapely kort_loype 50 = Inr segs"
    and imp: "(\<forall>s e. 0 \<le> s \<and> s < e \<and> e \<le> 1
                \<longrightarrow> (\<exists>g. substring eksempel_shapely kort_loype s e = Inr g))
              \<longrightarrow> length segs = nat antall \<and> segs \<noteq> []"
    by (elim exE conjE)
  have "segs \<noteq> []" using imp lib by simp
  with seg have "\<exists>segs. segmenter_loype dobbel_flyt eksempel_shapely kort_loype 50 = Inr segs
           \<and> segs \<noteq> []"
    by simp
  with pos kort_lengde k s0 lib [of 0 "1 / 2"] show ?thesis by (intro conjI)
qed

section \<open>Claims about trails of fewer than two positions\<close>

lemma feature_lokke_append:
  "feature_lokke F L tr st (xs @ ys) =
     (case feature_lokke F L tr st xs of
        Inl e \<Rightarrow> Inl e
      | Inr st' \<Rightarrow> feature_lokke F L tr st' ys)"
proof (induction xs arbitrary: st)
  case Nil
  show ?case by simp
next
  case (Cons f rest)
  show ?case by (cases "feature_steg F L tr st f") (simp_all add: Cons.IH)
qed

lemma feature_steg_tom:
  assumes "coordinates f = []" and "LineString L [] = Inr g" and "coords L g = []"
    and "avrund_kvotient F (0, 100) 0 = Some 0"
    and "slice_of L g 1 0 = None"
  shows "feature_steg F L tr st f = Inr st"
proof -
  have l: "beregn_linje_lengde F L g = Inr 0"
    by (rule beregn_linje_lengde_kort) (simp add: assms(3))
  have k: "avrund_kvotient F (0, 100) (0 / 100) = Some 0"
    using assms(4) by simp
  have "segmenter_loype F L g 100 =
          Inr (List.map_filter (slice_of L g (max 1 (py_int 0))) [0..<nat (max 1 (py_int 0))])"
    by (rule segmenter_loype_eq [OF _ l k]) simp
  then have "segmenter_loype F L g 100 = Inr []"
    using assms(5) by (simp add: py_int_def map_filter_simps)
  then show ?thesis using assms(1,2) by (simp add: feature_steg_def)
qed

text \<open>
  Claim C5 says that, during the matching, a trail of fewer than two positions adds
  nothing and does not stop the run.  \<open>prosesser_loyper\<close> builds the line of every
  trail outside any \<^verbatim>\<open>try\<close>: with a constructor that rejects a single position, as
  Shapely's does, a one-position trail in front of the short trail ends the run with
  the constructor's error, although the short trail alone is processed.
\<close>

theorem C5_one_position_aborts_counterexample:
  "length (coordinates ett_punkt_feature) < 2
   \<and> prosesser_loyper dobbel_flyt eksempel_shapely [ett_punkt_feature, kort_feature] [(0, 0)]
       = Inl ValueError
   \<and> (\<exists>r. prosesser_loyper dobbel_flyt eksempel_shapely [kort_feature] [(0, 0)] = Inr r)"
proof -
  have "feature_steg dobbel_flyt eksempel_shapely [(0, 0)] ([], 0, 0) ett_punkt_feature
          = Inl ValueError"
    by (simp add: feature_steg_def ett_punkt_feature_def eksempel_shapely_def)
  then have "prosesser_loyper dobbel_flyt eksempel_shapely [ett_punkt_feature, kort_feature]
               [(0, 0)] = Inl ValueError"
    by (simp add: prosesser_loyper_def)
  then show ?thesis
    by (simp add: kort_run ett_punkt_feature_def)
qed

text \<open>
  Claim C5, amended.  During the matching, a trail whose geometry has no position is
  absorbed: the constructor accepts the empty list and gives a line without
  coordinates, its length is 0, the count is 1, and the one slice of the empty line
  fails and is dropped; so the trail leaves the accumulators as they are (no segment,
  no length) and the run gives what it gives without that trail.
\<close>

theorem C5_empty_trail_is_absorbed:
  assumes "coordinates f = []"
    and "LineString L [] = Inr g" and "coords L g = []"
    and "avrund_kvotient F (0, 100) 0 = Some 0"
    and "slice_of L g 1 0 = None"
  shows "length (coordinates f) < 2
       \<and> feature_steg F L track st f = Inr st
       \<and> prosesser_loyper F L (before @ f # after) track
           = prosesser_loyper F L (before @ after) track"
proof -
  have steg: "feature_steg F L track st' f = Inr st'" for st'
    using assms by (rule feature_steg_tom)
  have "feature_lokke F L track st0 (before @ f # after)
          = feature_lokke F L track st0 (before @ after)" for st0
    by (cases "feature_lokke F L track st0 before") (simp_all add: feature_lokke_append steg)
  then have "prosesser_loyper F L (before @ f # after) track
           = prosesser_loyper F L (before @ after) track"
    by (simp add: prosesser_loyper_def)
  with steg assms(1) show ?thesis by simp
qed

text \<open>The theorem on a run with the empty trail in front of the short trail.\<close>

theorem C5_empty_trail_witness:
  "coordinates tom_feature = []
   \<and> LineString eksempel_shapely [] = Inr []
   \<and> coords eksempel_shapely [] = []
   \<and> avrund_kvotient dobbel_flyt (0, 100) 0 = Some 0
   \<and> slice_of eksempel_shapely [] 1 0 = None
   \<and> feature_steg dobbel_flyt eksempel_shapely [(0, 0)] ([], 0, 0) tom_feature
       = Inr ([], 0, 0)
   \<and> prosesser_loyper dobbel_flyt eksempel_shapely ([] @ tom_feature # [kort_feature]) [(0, 0)]
       = prosesser_loyper dobbel_flyt eksempel_shapely ([] @ [kort_feature]) [(0, 0)]
   \<and> (\<exists>r. prosesser_loyper dobbel_flyt eksempel_shapely [tom_feature, kort_feature] [(0, 0)]
            = Inr r \<and> length (segmenter r) = 1)"
proof -
  have c: "coordinates tom_feature = []" by (simp add: tom_feature_def)
  have l: "LineString eksempel_shapely [] = Inr []" by (simp add: eksempel_shapely_def)
  have g: "coords eksempel_shapely [] = []" by (simp add: eksempel_shapely_def)
  have k: "avrund_kvotient dobbel_flyt (0, 100) 0 = Some 0"
    by (rule dobbel_kvotient(1)) simp
  have s: "slice_of eksempel_shapely [] 1 0 = None"
    by (simp add: slice_of_def eksempel_shapely_def)
  note inst = C5_empty_trail_is_absorbed [OF c l g k s]
  have 1: "feature_steg dobbel_flyt eksempel_shapely [(0, 0)] ([], 0, 0) tom_feature
       = Inr ([], 0, 0)"
    by (rule inst [THEN conjunct2, THEN conjunct1])
  have 2: "prosesser_loyper dobbel_flyt eksempel_shapely ([] @ tom_feature # [kort_feature])
             [(0, 0)]
       = prosesser_loyper dobbel_flyt eksempel_shapely ([] @ [kort_feature]) [(0, 0)]"
    by (rule inst [THEN conjunct2, THEN conjunct2])
  then have 3: "\<exists>r. prosesser_loyper dobbel_flyt eksempel_shapely [tom_feature, kort_feature]
                  [(0, 0)] = Inr r \<and> length (segmenter r) = 1"
    by (simp add: kort_run)
  from c l g k s 1 2 3 show ?thesis by (intro conjI)
qed

section \<open>Where the trail geometries come from\<close>

text \<open>
  The file the matching reads is written from what \<open>osm_til_geojson\<close> returns.  A way
  with fewer than two resolved positions is skipped there, the answer being converted
  as if that way were absent, and every feature returned has at least two positions.
\<close>

lemma bygg_noder_append:
  "bygg_noder (xs @ ys) nodes = bygg_noder ys (bygg_noder xs nodes)"
proof (induction xs arbitrary: nodes)
  case Nil
  show ?case by simp
next
  case (Cons x xs)
  show ?case by (cases x) (simp_all only: append_Cons bygg_noder.simps Cons.IH)
qed

lemma bygg_noder_uten_way:
  "bygg_noder (xs @ Way way_id nds tags # ys) nodes = bygg_noder (xs @ ys) nodes"
  by (simp only: bygg_noder_append bygg_noder.simps)

lemma way_lokke_Way:
  "way_lokke egenskaper nodes w features (Way way_id (Some node_ids) tags # rest) =
     (if length (List.map_filter nodes node_ids) < 2
      then way_lokke egenskaper nodes w features rest
      else way_lokke egenskaper nodes
             (snd (egenskaper w way_id tags
                (List.map_filter nodes node_ids ! (length (List.map_filter nodes node_ids) div 2))))
             (features @
                [\<lparr>coordinates = List.map_filter nodes node_ids,
                  feature_properties = fst (egenskaper w way_id tags
                    (List.map_filter nodes node_ids
                       ! (length (List.map_filter nodes node_ids) div 2)))\<rparr>])
             rest)"
  by (simp only: way_lokke.simps Let_def case_prod_beta)

lemma way_lokke_annet:
  "way_lokke egenskaper nodes w features (Node i lon lat # rest)
     = way_lokke egenskaper nodes w features rest"
  "way_lokke egenskaper nodes w features (Way i None tags # rest)
     = way_lokke egenskaper nodes w features rest"
  "way_lokke egenskaper nodes w features (Annet # rest)
     = way_lokke egenskaper nodes w features rest"
  by (simp_all only: way_lokke.simps)

lemma way_lokke_coords:
  "\<forall>f \<in> set features. 2 \<le> length (coordinates f) \<Longrightarrow>
   \<forall>f \<in> set (fst (way_lokke egenskaper nodes w features els)). 2 \<le> length (coordinates f)"
proof (induction els arbitrary: w features)
  case Nil
  then show ?case by simp
next
  case (Cons x rest)
  show ?case
  proof (cases x)
    case (Node i lon lat)
    then show ?thesis using Cons by (simp only: way_lokke_annet)
  next
    case Annet
    then show ?thesis using Cons by (simp only: way_lokke_annet)
  next
    case (Way i nds tags)
    show ?thesis
    proof (cases nds)
      case None
      then show ?thesis using Way Cons by (simp only: way_lokke_annet)
    next
      case (Some node_ids)
      show ?thesis
      proof (cases "length (List.map_filter nodes node_ids) < 2")
        case True
        then show ?thesis using Way Some Cons by (simp only: way_lokke_Way if_True)
      next
        case False
        let ?c = "List.map_filter nodes node_ids"
        let ?e = "egenskaper w i tags (?c ! (length ?c div 2))"
        have "\<forall>f \<in> set (features @ [\<lparr>coordinates = ?c, feature_properties = fst ?e\<rparr>]).
                2 \<le> length (coordinates f)"
          using False Cons.prems by simp
        then have "\<forall>f \<in> set (fst (way_lokke egenskaper nodes (snd ?e)
                     (features @ [\<lparr>coordinates = ?c, feature_properties = fst ?e\<rparr>]) rest)).
                2 \<le> length (coordinates f)"
          by (rule Cons.IH)
        then show ?thesis using False Way Some by (simp only: way_lokke_Way if_False)
      qed
    qed
  qed
qed

lemma way_lokke_uten_way:
  assumes "length (List.map_filter nodes node_ids) < 2"
  shows "way_lokke egenskaper nodes w features (xs @ Way way_id (Some node_ids) tags # ys)
       = way_lokke egenskaper nodes w features (xs @ ys)"
proof (induction xs arbitrary: w features)
  case Nil
  show ?case using assms by (simp only: append_Nil way_lokke_Way if_True)
next
  case (Cons x rest)
  show ?case
  proof (cases x)
    case (Node i lon lat)
    then show ?thesis using Cons by (simp only: append_Cons way_lokke_annet)
  next
    case Annet
    then show ?thesis using Cons by (simp only: append_Cons way_lokke_annet)
  next
    case (Way i nds tags)
    show ?thesis
    proof (cases nds)
      case None
      then show ?thesis using Way Cons by (simp only: append_Cons way_lokke_annet)
    next
      case (Some nds')
      then show ?thesis using Way Cons by (simp only: append_Cons way_lokke_Way)
    qed
  qed
qed

lemma osm_til_geojson_minst_to:
  "\<forall>f \<in> set (fst (osm_til_geojson egenskaper w elements)). 2 \<le> length (coordinates f)"
  unfolding osm_til_geojson_def by (rule way_lokke_coords) simp

lemma osm_til_geojson_hopper_over:
  assumes "length (List.map_filter (bygg_noder (xs @ ys) Map.empty) node_ids) < 2"
  shows "osm_til_geojson egenskaper w (xs @ Way way_id (Some node_ids) tags # ys)
          = osm_til_geojson egenskaper w (xs @ ys)"
  using assms unfolding osm_til_geojson_def bygg_noder_uten_way by (rule way_lokke_uten_way)

end
